theory Spec2Isabelle
  imports Complex_Main
begin

section \<open>Common data model\<close>

text \<open>
  The exceptions the modelled Python code raises. \<open>RuntimeError\<close> stands for the shape
  and broadcasting failures of the tensor library.
\<close>

datatype error = ValueError | IndexError | NotImplementedError | RuntimeError | TypeError

text \<open>
  A floating-point entry that may be not-a-number. Finite entries are modelled as reals:
  rounding is outside this development.
\<close>

datatype fval = NaN | Val real

section \<open>likelihood.py: StudentTLikelihood\<close>

text \<open>
  \<open>StudentTLikelihood.__init__\<close> stores \<open>dof\<close> as a tensor and \<open>scale\<close> as a Parameter;
  \<open>scale\<close> below is the value \<open>self.scale()\<close> returns.
\<close>

record StudentTLikelihood =
  dof :: real
  scale :: real

text \<open>\<open>torch.full(f.shape, np.nan)\<close>: a tensor of the shape of \<open>f\<close>, every entry NaN.\<close>

definition full_nan :: "fval list list \<Rightarrow> fval list list" where
  "full_nan f = map (map (\<lambda>_. NaN)) f"

definition StudentT_mean :: "StudentTLikelihood \<Rightarrow> fval list list \<Rightarrow> fval list list" where
  "StudentT_mean l f = (if dof l \<le> 1 then full_nan f else f)"

definition StudentT_variance :: "StudentTLikelihood \<Rightarrow> fval list list \<Rightarrow> fval" where
  "StudentT_variance l f =
     (if dof l \<le> 2 then NaN else Val ((scale l)\<^sup>2 * dof l / (dof l - 2)))"

section \<open>Results of fallible code\<close>

text \<open>
  A Python call either returns or raises; \<open>bind_err\<close> sequences two calls and stops at
  the first exception.
\<close>

definition bind_err :: "error + 'a \<Rightarrow> ('a \<Rightarrow> error + 'b) \<Rightarrow> error + 'b" where
  "bind_err m k = (case m of Inl e \<Rightarrow> Inl e | Inr x \<Rightarrow> k x)"

text \<open>
  Tensor shapes. A tensor of shape \<open>(N, 1)\<close> is the list of its \<open>N\<close> entries (\<open>col\<close>);
  a tensor of shape \<open>(N, M)\<close> is the list of its \<open>N\<close> rows (\<open>mat\<close>). Arguments are taken
  to have the shapes the source documents; the shape errors of the tensor library for
  other arguments are not part of the model.
\<close>

type_synonym col = "real list"
type_synonym mat = "real list list"

text \<open>Python's \<open>int(x)\<close> on a float: truncation towards zero.\<close>

definition py_int :: "real \<Rightarrow> int" where
  "py_int x = (if 0 \<le> x then \<lfloor>x\<rfloor> else \<lceil>x\<rceil>)"

text \<open>
  Indexing the first dimension with a Python integer, \<open>A[i, :]\<close>: a negative index counts
  from the end, an index outside \<open>[-len, len)\<close> raises IndexError.
\<close>

definition getitem0 :: "'a list \<Rightarrow> int \<Rightarrow> error + 'a" where
  "getitem0 A i =
     (if 0 \<le> i \<and> i < int (length A) then Inr (A ! nat i)
      else if - int (length A) \<le> i \<and> i < 0 then Inr (A ! nat (int (length A) + i))
      else Inl IndexError)"

section \<open>likelihood.py: link functions\<close>

text \<open>
  The link functions are module-level functions which the likelihoods compare by
  identity (\<open>self.link == exp\<close>, \<open>self.link != inv_probit\<close>); a link is therefore the
  name of one of them. \<open>torch.erf\<close> is a function of the tensor library and is the
  parameter \<open>erf\<close> of \<open>apply_link\<close>.
\<close>

datatype link = identity | square | exp_link | inv_probit | logistic

definition apply_link :: "(real \<Rightarrow> real) \<Rightarrow> link \<Rightarrow> real \<Rightarrow> real" where
  "apply_link erf h x =
     (case h of
        identity \<Rightarrow> x
      | square \<Rightarrow> x\<^sup>2
      | exp_link \<Rightarrow> exp x
      | inv_probit \<Rightarrow> 0.5 * (1.0 + erf (x / sqrt 2.0)) * (1.0 - 2.0 * (1 / 1000)) + 1 / 1000
      | logistic \<Rightarrow> 1.0 / (1.0 + exp (- x)))"

section \<open>likelihood.py: GaussHermiteQuadrature\<close>

text \<open>
  The nodes \<open>t\<close> and weights \<open>w\<close> (each of shape \<open>(deg, 1)\<close>) come from
  \<open>numpy.polynomial.hermite.hermgauss\<close> and are stored already multiplied by \<open>t_scale\<close>
  and \<open>w_scale\<close>; the record holds the stored values. For \<open>deg = 1\<close> numpy returns the
  node \<open>0\<close> with weight \<open>sqrt pi\<close>, which \<open>Likelihood.__init__\<close> scales to the node \<open>0\<close>
  with weight \<open>1\<close>.
\<close>

record GaussHermiteQuadrature =
  q_t :: col
  q_w :: col

text \<open>
  \<open>__call__(mu, var, F) = F(mu + var.sqrt().mm(self.t.T)).mm(self.w)\<close>: row \<open>p\<close> of the
  argument of \<open>F\<close> is \<open>mu[p] + sqrt(var[p]) * t[k]\<close> over the nodes \<open>k\<close>, and entry \<open>p\<close> of the
  result is the weighted sum of row \<open>p\<close> of what \<open>F\<close> returns.
\<close>

definition quadrature_nodes :: "GaussHermiteQuadrature \<Rightarrow> col \<Rightarrow> col \<Rightarrow> mat" where
  "quadrature_nodes q mu var = map2 (\<lambda>m v. map (\<lambda>tk. m + sqrt v * tk) (q_t q)) mu var"

definition mm_col :: "mat \<Rightarrow> col \<Rightarrow> col" where
  "mm_col A x = map (\<lambda>row. sum_list (map2 (*) row x)) A"

definition GaussHermiteQuadrature_call ::
  "GaussHermiteQuadrature \<Rightarrow> col \<Rightarrow> col \<Rightarrow> (mat \<Rightarrow> error + mat) \<Rightarrow> error + col" where
  "GaussHermiteQuadrature_call q mu var F =
     bind_err (F (quadrature_nodes q mu var)) (\<lambda>G. Inr (mm_col G (q_w q)))"

section \<open>likelihood.py: Likelihood\<close>

text \<open>
  What \<open>predict\<close> returns: the mean alone when no interval is asked for, otherwise the
  triple of mean, lower and upper boundary.
\<close>

datatype prediction = Mean col | Interval col col col

text \<open>
  \<open>torch.distributions.normal.Normal(loc, scale).sample([n])\<close> returns \<open>n\<close> draws for every
  data point. A draw from the normal distribution with location \<open>loc\<close> and scale
  (standard deviation) \<open>scale\<close> is \<open>loc + scale * z\<close> for a standard normal draw \<open>z\<close>; the
  random source is made explicit as \<open>z s p\<close>, the standard normal draw for sample \<open>s\<close> at
  data point \<open>p\<close>. The result has shape \<open>(n, N)\<close>.
\<close>

definition Normal_sample :: "col \<Rightarrow> col \<Rightarrow> nat \<Rightarrow> (nat \<Rightarrow> nat \<Rightarrow> real) \<Rightarrow> mat" where
  "Normal_sample loc scl n z =
     map (\<lambda>s. map (\<lambda>p. loc ! p + scl ! p * z s p) [0..<length loc]) [0..<n]"

text \<open>\<open>Y.sort(dim=0)\<close> on a tensor of shape \<open>(n, N)\<close>: every column is sorted ascending.\<close>

definition column :: "mat \<Rightarrow> nat \<Rightarrow> col" where
  "column Y p = map (\<lambda>row. row ! p) Y"

definition sort_dim0 :: "nat \<Rightarrow> mat \<Rightarrow> mat" where
  "sort_dim0 N Y = map (\<lambda>s. map (\<lambda>p. sort (column Y p) ! s) [0..<N]) [0..<length Y]"

text \<open>
  \<open>Likelihood.predict\<close>, the implementation of the base class. The methods of \<open>self\<close>
  that it calls are its first arguments: the quadrature \<open>self.quadrature\<close>, \<open>self.mean\<close>
  and \<open>self.sample\<close>. The argument \<open>sigma\<close> is not used by the base class, and \<open>X\<close> is
  only handed on to \<open>mean\<close> and \<open>sample\<close>, which are closed over it here.
  Note that the source rebinds \<open>mu\<close> to the result of the quadrature before it samples.
\<close>

definition Likelihood_predict ::
  "GaussHermiteQuadrature \<Rightarrow> (mat \<Rightarrow> error + mat) \<Rightarrow> (mat \<Rightarrow> error + mat) \<Rightarrow>
   col \<Rightarrow> col \<Rightarrow> (real \<times> real) option \<Rightarrow> nat \<Rightarrow> (nat \<Rightarrow> nat \<Rightarrow> real) \<Rightarrow> error + prediction" where
  "Likelihood_predict quadrature mean_self sample_self mu var ci n z =
     bind_err (GaussHermiteQuadrature_call quadrature mu var mean_self) (\<lambda>mu.
       case ci of
         None \<Rightarrow> Inr (Mean mu)
       | Some (ci0, ci1) \<Rightarrow>
           let samples_f = Normal_sample mu var n z in
           bind_err (sample_self samples_f) (\<lambda>samples_y.
             let samples_y = sort_dim0 (length mu) samples_y;
                 lower = py_int (ci0 * real n + 0.5);
                 upper = py_int (ci1 * real n + 0.5)
             in bind_err (getitem0 samples_y lower) (\<lambda>lo.
                bind_err (getitem0 samples_y upper) (\<lambda>up.
                  Inr (Interval mu lo up)))))"

section \<open>likelihood.py: BernoulliLikelihood\<close>

definition Bernoulli_mean :: "(real \<Rightarrow> real) \<Rightarrow> link \<Rightarrow> mat \<Rightarrow> error + mat" where
  "Bernoulli_mean erf h f = Inr (map (map (apply_link erf h)) f)"

definition Bernoulli_variance :: "(real \<Rightarrow> real) \<Rightarrow> link \<Rightarrow> mat \<Rightarrow> error + mat" where
  "Bernoulli_variance erf h f =
     Inr (map (map (\<lambda>x. apply_link erf h x - (apply_link erf h x)\<^sup>2)) f)"

definition Bernoulli_sample :: "mat \<Rightarrow> error + mat" where
  "Bernoulli_sample f = Inr f"

definition Bernoulli_predict ::
  "(real \<Rightarrow> real) \<Rightarrow> link \<Rightarrow> GaussHermiteQuadrature \<Rightarrow>
   col \<Rightarrow> col \<Rightarrow> (real \<times> real) option \<Rightarrow> real option \<Rightarrow> nat \<Rightarrow> (nat \<Rightarrow> nat \<Rightarrow> real) \<Rightarrow>
   error + prediction" where
  "Bernoulli_predict erf h quadrature mu var ci sigma n z =
     (if h \<noteq> inv_probit
      then Likelihood_predict quadrature (Bernoulli_mean erf h) Bernoulli_sample mu var ci n z
      else
        let p = map2 (\<lambda>m v. apply_link erf h (m / sqrt (1.0 + v))) mu var in
        if ci = None \<and> sigma = None then Inr (Mean p) else Inr (Interval p p p))"

section \<open>The Monte-Carlo interval as the specification words it\<close>

text \<open>
  The specification's fallback: the point prediction is the quadrature of \<open>mean\<close>; the
  interval comes from \<open>n\<close> latent samples drawn from the normal distribution with mean
  \<open>mu\<close> and variance \<open>var\<close> (standard deviation \<open>sqrt var\<close>), pushed through \<open>sample\<close>,
  sorted ascending per data point and read at the indices \<open>round(ci[0] * n)\<close> and
  \<open>round(ci[1] * n)\<close>, rounding half up.
\<close>

definition spec_monte_carlo_predict ::
  "GaussHermiteQuadrature \<Rightarrow> (mat \<Rightarrow> error + mat) \<Rightarrow> (mat \<Rightarrow> error + mat) \<Rightarrow>
   col \<Rightarrow> col \<Rightarrow> real \<times> real \<Rightarrow> nat \<Rightarrow> (nat \<Rightarrow> nat \<Rightarrow> real) \<Rightarrow> error + prediction" where
  "spec_monte_carlo_predict quadrature mean_self sample_self mu var ci n z =
     bind_err (GaussHermiteQuadrature_call quadrature mu var mean_self) (\<lambda>point.
       let latent = Normal_sample mu (map sqrt var) n z in
       bind_err (sample_self latent) (\<lambda>ys.
         let sorted = sort_dim0 (length mu) ys in
         bind_err (getitem0 sorted \<lfloor>fst ci * real n + 1 / 2\<rfloor>) (\<lambda>lo.
         bind_err (getitem0 sorted \<lfloor>snd ci * real n + 1 / 2\<rfloor>) (\<lambda>up.
           Inr (Interval point lo up)))))"

section \<open>util.py: merge_data and split_data\<close>

text \<open>
  A two-dimensional tensor with its shape: \<open>shape0\<close> rows of \<open>shape1\<close> entries. The shape
  is kept beside the rows because a tensor without rows still has a number of columns,
  which \<open>merge_data\<close> reads (\<open>xs[0].shape[1]\<close>) and the broadcasting check compares.
\<close>

record tensor =
  shape0 :: nat
  shape1 :: nat
  data :: mat

definition wf_tensor :: "tensor \<Rightarrow> bool" where
  "wf_tensor X \<longleftrightarrow>
     length (data X) = shape0 X \<and> list_all (\<lambda>row. length row = shape1 X) (data X)"

text \<open>\<open>torch.zeros((a, b))\<close>.\<close>

definition zeros :: "nat \<Rightarrow> nat \<Rightarrow> tensor" where
  "zeros a b = \<lparr>shape0 = a, shape1 = b, data = replicate a (replicate b 0)\<rparr>"

text \<open>
  An assignment to the row slice \<open>[n:n+k]\<close>: row \<open>n + i\<close> becomes \<open>g i\<close> of the old row.
  \<open>merge_data\<close> only writes slices that lie inside the tensor.
\<close>

definition update_slice :: "nat \<Rightarrow> nat \<Rightarrow> (nat \<Rightarrow> 'a \<Rightarrow> 'a) \<Rightarrow> 'a list \<Rightarrow> 'a list" where
  "update_slice n k g A = take n A @ map (\<lambda>i. g i (A ! (n + i))) [0..<k] @ drop (n + k) A"

text \<open>\<open>X[n:n+k, 0] = v\<close>.\<close>

definition assign_col0 :: "tensor \<Rightarrow> nat \<Rightarrow> nat \<Rightarrow> real \<Rightarrow> tensor" where
  "assign_col0 X n k v = X\<lparr>data := update_slice n k (\<lambda>i row. row[0 := v]) (data X)\<rparr>"

text \<open>
  \<open>X[n:n+src.shape[0], c0:] = src\<close>. The tensor library broadcasts the source to the
  target block: the numbers of columns have to agree, or the source has one column,
  which is then repeated; otherwise it raises.
\<close>

definition assign_cols_from :: "nat \<Rightarrow> tensor \<Rightarrow> nat \<Rightarrow> tensor \<Rightarrow> error + tensor" where
  "assign_cols_from c0 X n src =
     (let D = shape1 X - c0 in
      if shape1 src = D then
        Inr (X\<lparr>data := update_slice n (shape0 src) (\<lambda>i row. take c0 row @ data src ! i) (data X)\<rparr>)
      else if shape1 src = 1 then
        Inr (X\<lparr>data := update_slice n (shape0 src)
              (\<lambda>i row. take c0 row @ replicate D (data src ! i ! 0)) (data X)\<rparr>)
      else Inl RuntimeError)"

text \<open>
  The loop \<open>for channel, x in enumerate(xs)\<close> of \<open>merge_data\<close>, with the running offset
  \<open>n\<close>; \<open>N[channel]\<close> is \<open>x.shape[0]\<close>.
\<close>

fun merge_loop ::
  "nat \<Rightarrow> nat \<Rightarrow> tensor list \<Rightarrow> tensor list option \<Rightarrow> tensor \<Rightarrow> tensor \<Rightarrow>
   error + tensor \<times> tensor" where
  "merge_loop channel n [] ys X Y = Inr (X, Y)"
| "merge_loop channel n (x # xs) ys X Y =
     bind_err (assign_cols_from 1 (assign_col0 X n (shape0 x) (real channel)) n x) (\<lambda>X.
     bind_err (case ys of None \<Rightarrow> Inr Y | Some ys \<Rightarrow> assign_cols_from 0 Y n (ys ! channel)) (\<lambda>Y.
       merge_loop (Suc channel) (n + shape0 x) xs ys X Y))"

text \<open>
  \<open>merge_data(xs, ys=None)\<close>. That \<open>xs\<close> and \<open>ys\<close> are lists is their type here. With an
  empty \<open>xs\<close> the source reaches \<open>xs[0]\<close>, which raises IndexError.
\<close>

definition merge_data ::
  "tensor list \<Rightarrow> tensor list option \<Rightarrow> error + nat list \<times> tensor \<times> tensor option" where
  "merge_data xs ys =
     (let output_dims = length xs in
      if ys \<noteq> None \<and> length (the ys) \<noteq> output_dims then Inl ValueError
      else
        let N = map shape0 xs in
        if ys \<noteq> None \<and> \<not> list_all (\<lambda>i. shape0 (the ys ! i) = N ! i) [0..<length (the ys)]
        then Inl ValueError
        else
          case xs of
            [] \<Rightarrow> Inl IndexError
          | x0 # _ \<Rightarrow>
              bind_err (merge_loop 0 0 xs ys (zeros (sum_list N) (1 + shape1 x0)) (zeros (sum_list N) 1))
                (\<lambda>(X, Y). Inr (N, X, if ys \<noteq> None then Some Y else None)))"

text \<open>The slice \<open>X[a:b, :]\<close>; Python clips a slice to the rows that exist.\<close>

definition slice_rows :: "tensor \<Rightarrow> nat \<Rightarrow> nat \<Rightarrow> tensor" where
  "slice_rows X a b =
     \<lparr>shape0 = min b (shape0 X) - min a (shape0 X), shape1 = shape1 X,
      data = take (b - a) (drop a (data X))\<rparr>"

text \<open>The inner loop \<open>for channel in range(len(N))\<close> of \<open>split_data\<close>.\<close>

fun split_loop :: "nat \<Rightarrow> nat list \<Rightarrow> tensor \<Rightarrow> tensor list" where
  "split_loop n [] X = []"
| "split_loop n (Nc # N) X = slice_rows X n (n + Nc) # split_loop (n + Nc) N X"

text \<open>
  \<open>split_data(N, *Xs)\<close> returns the list of pieces when one matrix is given and the
  tuple of such lists otherwise. That every \<open>X\<close> is two-dimensional is its type here.
\<close>

datatype split_result = One "tensor list" | Many "tensor list list"

definition split_data :: "nat list \<Rightarrow> tensor list \<Rightarrow> error + split_result" where
  "split_data N Xs =
     (if \<not> list_all (\<lambda>X. shape0 X = sum_list N) Xs then Inl ValueError
      else
        let data = map (split_loop 0 N) Xs in
        if length data = 1 then Inr (One (data ! 0)) else Inr (Many data))"

text \<open>
  For stating what a round trip yields: the rows of \<open>x\<close>, each with the channel index
  \<open>c\<close> in front, and the tensor made of them.
\<close>

definition tag_rows :: "nat \<Rightarrow> tensor \<Rightarrow> mat" where
  "tag_rows c x = map ((#) (real c)) (data x)"

definition prepend_channel :: "nat \<Rightarrow> tensor \<Rightarrow> tensor" where
  "prepend_channel c x =
     \<lparr>shape0 = shape0 x, shape1 = Suc (shape1 x), data = map ((#) (real c)) (data x)\<rparr>"

section \<open>multioutput.py: tensors of the kernels\<close>

text \<open>
  A point set \<open>X\<close> of shape \<open>(data_points, input_dims)\<close> is the list of its rows. The
  methods \<open>_active_input\<close>, \<open>distance\<close>, \<open>squared_distance\<close> and \<open>average\<close> belong to the
  base classes in \<open>kernel.py\<close>, which is not among the sources.
\<close>

type_synonym points = "real list list"

type_synonym tensor3 = "real list list list"

text \<open>
  Modelled from the spec: \<open>_active_input\<close> of the missing \<open>kernel.py\<close>, which restricts
  \<open>X1\<close> and \<open>X2\<close> to the kernel's declared active input dimensions; without declared
  dimensions the points are used as they are.
\<close>

definition active_input :: "nat list option \<Rightarrow> points \<Rightarrow> points" where
  "active_input dims X = (case dims of None \<Rightarrow> X | Some ds \<Rightarrow> map (\<lambda>x. map (\<lambda>d. x ! d) ds) X)"

text \<open>The second point set of a call: \<open>X2\<close>, or \<open>X1\<close> when \<open>X2\<close> is None.\<close>

definition other :: "points \<Rightarrow> points option \<Rightarrow> points" where
  "other X1 X2 = (case X2 of None \<Rightarrow> X1 | Some X \<Rightarrow> X)"

text \<open>
  Modelled from the spec: \<open>distance\<close>, \<open>squared_distance\<close> and \<open>average\<close> of the missing
  \<open>kernel.py\<close>. They return tensors of shape \<open>(N, M, D)\<close>: per pair of points and input
  dimension the difference \<open>tau = x - x'\<close>, its square, and the average position
  \<open>avg = (x + x') / 2\<close>.
\<close>

definition distance :: "points \<Rightarrow> points option \<Rightarrow> tensor3" where
  "distance X1 X2 = map (\<lambda>x. map (\<lambda>x'. map2 (-) x x') (other X1 X2)) X1"

definition squared_distance :: "points \<Rightarrow> points option \<Rightarrow> tensor3" where
  "squared_distance X1 X2 = map (\<lambda>x. map (\<lambda>x'. map2 (\<lambda>a b. (a - b)\<^sup>2) x x') (other X1 X2)) X1"

definition average :: "points \<Rightarrow> points option \<Rightarrow> tensor3" where
  "average X1 X2 = map (\<lambda>x. map (\<lambda>x'. map2 (\<lambda>a b. (a + b) / 2) x x') (other X1 X2)) X1"

text \<open>
  \<open>u.dot(v)\<close>, and \<open>torch.tensordot(T, v, dims=1)\<close> for \<open>T\<close> of shape \<open>(N, M, D)\<close>: the
  contraction of the last dimension with the vector \<open>v\<close>.
\<close>

definition dot :: "real list \<Rightarrow> real list \<Rightarrow> real" where
  "dot u v = sum_list (map2 (*) u v)"

definition tensordot :: "tensor3 \<Rightarrow> real list \<Rightarrow> mat" where
  "tensordot T v = map (map (\<lambda>t. dot t v)) T"

text \<open>
  Elementwise operations: \<open>ew3\<close> maps the vectors along the last dimension of a tensor
  of shape \<open>(N, M, D)\<close>, \<open>ew\<close> maps the entries of a matrix and \<open>ew2\<close> combines two
  matrices of the same shape entry by entry.
\<close>

definition ew3 :: "(real list \<Rightarrow> real list) \<Rightarrow> tensor3 \<Rightarrow> tensor3" where
  "ew3 f T = map (map f) T"

definition ew :: "(real \<Rightarrow> real) \<Rightarrow> mat \<Rightarrow> mat" where
  "ew f A = map (map f) A"

definition ew2 :: "(real \<Rightarrow> real \<Rightarrow> real) \<Rightarrow> mat \<Rightarrow> mat \<Rightarrow> mat" where
  "ew2 f A B = map2 (map2 f) A B"

text \<open>The block a call of \<open>Ksub\<close> returns, of shape \<open>(|X1|, |X2|)\<close>.\<close>

definition block :: "points \<Rightarrow> points option \<Rightarrow> mat \<Rightarrow> tensor" where
  "block X1 X2 A = \<lparr>shape0 = length X1, shape1 = length (other X1 X2), data = A\<rparr>"

text \<open>\<open>T.T\<close> and the diagonal of a block.\<close>

definition transpose_t :: "tensor \<Rightarrow> tensor" where
  "transpose_t T = \<lparr>shape0 = shape1 T, shape1 = shape0 T,
     data = map (\<lambda>b. map (\<lambda>a. data T ! a ! b) [0..<shape0 T]) [0..<shape1 T]\<rparr>"

definition diagonal :: "tensor \<Rightarrow> real list" where
  "diagonal T = map (\<lambda>a. data T ! a ! a) [0..<min (shape0 T) (shape1 T)]"

section \<open>multioutput.py: the kernels\<close>

text \<open>
  The attributes of the base class. Parameters are the values their \<open>Parameter\<close>
  objects return, with the shapes \<open>__init__\<close> gives them. Channel indices are natural
  numbers; an index outside the parameter tensors raises IndexError. \<open>delay\<close> and
  \<open>phase\<close> exist only for \<open>output_dims > 1\<close>, and they are read only for two distinct
  channels, which need \<open>output_dims > 1\<close> to be in range.
\<close>

record MultiOutputKernel =
  output_dims :: nat
  input_dims :: nat
  active_dims :: "nat list option"

subsection \<open>MultiOutputSpectralKernel\<close>

record MultiOutputSpectralKernel = MultiOutputKernel +
  mosm_magnitude :: "real list"
  mosm_mean :: "real list list"
  mosm_variance :: "real list list"
  mosm_delay :: "real list list"
  mosm_phase :: "real list"

text \<open>\<open>self.twopi = np.power(2.0*np.pi, float(self.input_dims)/2.0)\<close>.\<close>

definition mosm_twopi :: "'a MultiOutputKernel_scheme \<Rightarrow> real" where
  "mosm_twopi k = (2.0 * pi) powr (real (input_dims k) / 2.0)"

definition MOSM_Ksub ::
  "MultiOutputSpectralKernel \<Rightarrow> nat \<Rightarrow> nat \<Rightarrow> points \<Rightarrow> points option \<Rightarrow> error + tensor" where
  "MOSM_Ksub k i j X1 X2 =
     (if \<not> (i < output_dims k \<and> j < output_dims k) then Inl IndexError
      else
        let X1 = active_input (active_dims k) X1;
            X2 = map_option (active_input (active_dims k)) X2;
            tau = distance X1 X2
        in if i = j then
          let variance = mosm_variance k ! i;
              alpha = (mosm_magnitude k ! i)\<^sup>2 * mosm_twopi k * sqrt (prod_list variance);
              exp = ew exp (ew ((*) (- 0.5)) (tensordot (ew3 (map (\<lambda>t. t\<^sup>2)) tau) variance));
              cos = ew cos (ew ((*) (2.0 * pi)) (tensordot tau (mosm_mean k ! i)))
          in Inr (block X1 X2 (ew2 (*) (ew ((*) alpha) exp) cos))
        else
          let inv_variances = map (\<lambda>v. 1.0 / v) (map2 (+) (mosm_variance k ! i) (mosm_variance k ! j));
              diff_mean = map2 (-) (mosm_mean k ! i) (mosm_mean k ! j);
              magnitude = mosm_magnitude k ! i * mosm_magnitude k ! j
                  * exp (- (pi\<^sup>2) * dot diff_mean (map2 (*) inv_variances diff_mean));
              mean = map2 (*) inv_variances
                  (map2 (+) (map2 (*) (mosm_variance k ! i) (mosm_mean k ! j))
                            (map2 (*) (mosm_variance k ! j) (mosm_mean k ! i)));
              variance = map2 (*) (map2 (*) (map ((*) 2.0) (mosm_variance k ! i)) inv_variances)
                  (mosm_variance k ! j);
              delay = map2 (-) (mosm_delay k ! i) (mosm_delay k ! j);
              phase = mosm_phase k ! i - mosm_phase k ! j;
              alpha = magnitude * mosm_twopi k * sqrt (prod_list variance);
              exp = ew exp (ew ((*) (- 0.5))
                  (tensordot (ew3 (\<lambda>t. map (\<lambda>t. t\<^sup>2) (map2 (+) t delay)) tau) variance));
              cos = ew cos (ew ((*) (2.0 * pi))
                  (ew (\<lambda>d. d + phase) (tensordot (ew3 (\<lambda>t. map2 (+) t delay) tau) mean)))
          in Inr (block X1 X2 (ew2 (*) (ew ((*) alpha) exp) cos)))"

definition MOSM_Ksub_diag :: "MultiOutputSpectralKernel \<Rightarrow> nat \<Rightarrow> points \<Rightarrow> error + real list" where
  "MOSM_Ksub_diag k i X1 =
     (if \<not> i < output_dims k then Inl IndexError
      else
        let variance = mosm_variance k ! i;
            alpha = (mosm_magnitude k ! i)\<^sup>2 * mosm_twopi k * sqrt (prod_list variance)
        in Inr (replicate (length X1) alpha))"

subsection \<open>UncoupledMultiOutputSpectralKernel\<close>

record UncoupledMultiOutputSpectralKernel = MultiOutputKernel +
  umosm_magnitude :: mat
  umosm_mean :: "real list list"
  umosm_variance :: "real list list"
  umosm_delay :: "real list list"
  umosm_phase :: "real list"

text \<open>\<open>M.tril()\<close>, and \<open>A.mm(B.T)\<close>, whose entry \<open>(i, j)\<close> is the product of rows \<open>i\<close> and \<open>j\<close>.\<close>

definition tril :: "mat \<Rightarrow> mat" where
  "tril M = map (\<lambda>a. map (\<lambda>b. if b \<le> a then M ! a ! b else 0) [0..<length (M ! a)]) [0..<length M]"

definition mm_T :: "mat \<Rightarrow> mat \<Rightarrow> mat" where
  "mm_T A B = map (\<lambda>ra. map (\<lambda>rb. dot ra rb) B) A"

definition uMOSM_Ksub ::
  "UncoupledMultiOutputSpectralKernel \<Rightarrow> nat \<Rightarrow> nat \<Rightarrow> points \<Rightarrow> points option \<Rightarrow> error + tensor" where
  "uMOSM_Ksub k i j X1 X2 =
     (if \<not> (i < output_dims k \<and> j < output_dims k) then Inl IndexError
      else
        let X1 = active_input (active_dims k) X1;
            X2 = map_option (active_input (active_dims k)) X2;
            tau = distance X1 X2;
            magnitude = mm_T (tril (umosm_magnitude k)) (tril (umosm_magnitude k))
        in if i = j then
          let variance = umosm_variance k ! i;
              alpha = magnitude ! i ! i * mosm_twopi k * sqrt (prod_list variance);
              exp = ew exp (ew ((*) (- 0.5)) (tensordot (ew3 (map (\<lambda>t. t\<^sup>2)) tau) variance));
              cos = ew cos (ew ((*) (2.0 * pi)) (tensordot tau (umosm_mean k ! i)))
          in Inr (block X1 X2 (ew2 (*) (ew ((*) alpha) exp) cos))
        else
          let inv_variances = map (\<lambda>v. 1.0 / v) (map2 (+) (umosm_variance k ! i) (umosm_variance k ! j));
              diff_mean = map2 (-) (umosm_mean k ! i) (umosm_mean k ! j);
              magnitude = magnitude ! i ! j
                  * exp (- (pi\<^sup>2) * dot diff_mean (map2 (*) inv_variances diff_mean));
              mean = map2 (*) inv_variances
                  (map2 (+) (map2 (*) (umosm_variance k ! i) (umosm_mean k ! j))
                            (map2 (*) (umosm_variance k ! j) (umosm_mean k ! i)));
              variance = map2 (*) (map2 (*) (map ((*) 2.0) (umosm_variance k ! i)) inv_variances)
                  (umosm_variance k ! j);
              delay = map2 (-) (umosm_delay k ! i) (umosm_delay k ! j);
              phase = umosm_phase k ! i - umosm_phase k ! j;
              alpha = magnitude * mosm_twopi k * sqrt (prod_list variance);
              exp = ew exp (ew ((*) (- 0.5))
                  (tensordot (ew3 (\<lambda>t. map (\<lambda>t. t\<^sup>2) (map2 (+) t delay)) tau) variance));
              cos = ew cos (ew (\<lambda>d. d + phase) (ew ((*) (2.0 * pi))
                  (tensordot (ew3 (\<lambda>t. map2 (+) t delay) tau) mean)))
          in Inr (block X1 X2 (ew2 (*) (ew ((*) alpha) exp) cos)))"

definition uMOSM_Ksub_diag ::
  "UncoupledMultiOutputSpectralKernel \<Rightarrow> nat \<Rightarrow> points \<Rightarrow> error + real list" where
  "uMOSM_Ksub_diag k i X1 =
     (if \<not> i < output_dims k then Inl IndexError
      else
        let magnitude = mm_T (tril (umosm_magnitude k)) (tril (umosm_magnitude k));
            variance = umosm_variance k ! i;
            alpha = magnitude ! i ! i * mosm_twopi k * sqrt (prod_list variance)
        in Inr (replicate (length X1) alpha))"

subsection \<open>CrossSpectralKernel\<close>

text \<open>
  The subcomponents \<open>Rq\<close> are the third dimension: \<open>amplitude\<close> has shape \<open>(1, 1, Rq)\<close>,
  \<open>exp\<close> shape \<open>(N, M, 1)\<close>, and the sum at the end runs over them.
\<close>

record CrossSpectralKernel = MultiOutputKernel +
  csm_amplitude :: mat
  csm_mean :: "real list"
  csm_variance :: "real list"
  csm_shift :: mat

definition CSM_Ksub ::
  "CrossSpectralKernel \<Rightarrow> nat \<Rightarrow> nat \<Rightarrow> points \<Rightarrow> points option \<Rightarrow> error + tensor" where
  "CSM_Ksub k i j X1 X2 =
     (if \<not> (i < output_dims k \<and> j < output_dims k) then Inl IndexError
      else
        let X1 = active_input (active_dims k) X1;
            X2 = map_option (active_input (active_dims k)) X2;
            tau = distance X1 X2
        in if i = j then
          let amplitude = csm_amplitude k ! i;
              exp = ew exp (ew ((*) (- 0.5)) (tensordot (ew3 (map (\<lambda>t. t\<^sup>2)) tau) (csm_variance k)));
              cos = ew cos (ew ((*) (2.0 * pi)) (tensordot tau (csm_mean k)))
          in Inr (block X1 X2 (ew2 (\<lambda>e c. sum_list (map (\<lambda>a. a * e * c) amplitude)) exp cos))
        else
          let shift = map2 (-) (csm_shift k ! i) (csm_shift k ! j);
              amplitude = map sqrt (map2 (*) (csm_amplitude k ! i) (csm_amplitude k ! j));
              exp = ew exp (ew ((*) (- 0.5)) (tensordot (ew3 (map (\<lambda>t. t\<^sup>2)) tau) (csm_variance k)));
              cos = map (map (\<lambda>d. map (\<lambda>s. cos (2.0 * pi * (d + s))) shift)) (tensordot tau (csm_mean k))
          in Inr (block X1 X2
                (map2 (map2 (\<lambda>e c. sum_list (map2 (\<lambda>a c. a * e * c) amplitude c))) exp cos)))"

definition CSM_Ksub_diag :: "CrossSpectralKernel \<Rightarrow> nat \<Rightarrow> points \<Rightarrow> error + real list" where
  "CSM_Ksub_diag k i X1 =
     (if \<not> i < output_dims k then Inl IndexError
      else
        let amplitude = sum_list (csm_amplitude k ! i)
        in Inr (replicate (length X1) amplitude))"

subsection \<open>GaussianConvolutionProcessKernel\<close>

text \<open>The source tests \<open>X2 is None\<close>, not \<open>i == j\<close>, to choose the branch.\<close>

record GaussianConvolutionProcessKernel = MultiOutputKernel +
  conv_weight :: "real list"
  conv_variance :: mat
  conv_base_variance :: "real list"

definition CONV_Ksub ::
  "GaussianConvolutionProcessKernel \<Rightarrow> nat \<Rightarrow> nat \<Rightarrow> points \<Rightarrow> points option \<Rightarrow> error + tensor" where
  "CONV_Ksub k i j X1 X2 =
     (let X1 = active_input (active_dims k) X1;
          X2 = map_option (active_input (active_dims k)) X2;
          tau = squared_distance X1 X2
      in if X2 = None then
        if \<not> i < output_dims k then Inl IndexError
        else
          let variances = map2 (+) (map ((*) 2.0) (conv_variance k ! i)) (conv_base_variance k);
              weight = (conv_weight k ! i)\<^sup>2
                  * sqrt (prod_list (conv_base_variance k) / prod_list variances);
              exp = ew exp (ew ((*) (- 0.5)) (tensordot tau (map (\<lambda>v. 1.0 / v) variances)))
          in Inr (block X1 X2 (ew ((*) weight) exp))
      else
        if \<not> (i < output_dims k \<and> j < output_dims k) then Inl IndexError
        else
          let variances = map2 (+) (map2 (+) (conv_variance k ! i) (conv_variance k ! j))
                  (conv_base_variance k);
              weight_variance = sqrt (prod_list (conv_base_variance k) / prod_list variances);
              weight = conv_weight k ! i * conv_weight k ! j * weight_variance;
              exp = ew exp (ew ((*) (- 0.5)) (tensordot tau (map (\<lambda>v. 1.0 / v) variances)))
          in Inr (block X1 X2 (ew ((*) weight) exp)))"

definition CONV_Ksub_diag ::
  "GaussianConvolutionProcessKernel \<Rightarrow> nat \<Rightarrow> points \<Rightarrow> error + real list" where
  "CONV_Ksub_diag k i X1 =
     (if \<not> i < output_dims k then Inl IndexError
      else
        let variances = map2 (+) (map ((*) 2.0) (conv_variance k ! i)) (conv_base_variance k);
            weight = (conv_weight k ! i)\<^sup>2
                * sqrt (prod_list (conv_base_variance k) / prod_list variances)
        in Inr (replicate (length X1) weight))"

subsection \<open>MultiOutputHarmonizableSpectralKernel\<close>

text \<open>
  \<open>self.twopi = np.power(2.0*np.pi, float(self.input_dims))\<close>; the exponent of
  \<open>torch.pow(lengthscale.sqrt(), float(self.input_dims))\<close> is a whole number;
  \<open>lengthscale*torch.ones(self.input_dims)\<close> is the vector of \<open>input_dims\<close> copies.
\<close>

record MultiOutputHarmonizableSpectralKernel = MultiOutputKernel +
  mohsm_magnitude :: "real list"
  mohsm_mean :: mat
  mohsm_variance :: mat
  mohsm_lengthscale :: "real list"
  mohsm_delay :: mat
  mohsm_phase :: "real list"
  mohsm_center :: "real list"

definition mohsm_twopi :: "'a MultiOutputKernel_scheme \<Rightarrow> real" where
  "mohsm_twopi k = (2.0 * pi) powr real (input_dims k)"

definition MOHSM_Ksub ::
  "MultiOutputHarmonizableSpectralKernel \<Rightarrow> nat \<Rightarrow> nat \<Rightarrow> points \<Rightarrow> points option \<Rightarrow> error + tensor" where
  "MOHSM_Ksub k i j X1 X2 =
     (if \<not> (i < output_dims k \<and> j < output_dims k) then Inl IndexError
      else
        let X1 = active_input (active_dims k) X1;
            X2 = map_option (active_input (active_dims k)) X2;
            tau = distance X1 X2;
            avg = average X1 X2
        in if i = j then
          let variance = mohsm_variance k ! i;
              lengthscale = (mohsm_lengthscale k ! i)\<^sup>2;
              alpha = (mohsm_magnitude k ! i)\<^sup>2 * mohsm_twopi k * sqrt (prod_list variance)
                  * sqrt lengthscale ^ input_dims k;
              exp1 = ew exp (ew ((*) (- 0.5)) (tensordot (ew3 (map (\<lambda>t. t\<^sup>2)) tau) variance));
              exp2 = ew exp (ew ((*) (- 0.5))
                  (tensordot (ew3 (\<lambda>a. map (\<lambda>t. t\<^sup>2) (map2 (-) a (mohsm_center k))) avg)
                     (map ((*) lengthscale) (replicate (input_dims k) 1))));
              cos = ew cos (ew ((*) (2.0 * pi)) (tensordot tau (mohsm_mean k ! i)))
          in Inr (block X1 X2 (ew2 (*) (ew2 (*) (ew ((*) alpha) exp1) cos) exp2))
        else
          let lengthscale_i = (mohsm_lengthscale k ! i)\<^sup>2;
              lengthscale_j = (mohsm_lengthscale k ! j)\<^sup>2;
              inv_variances = map (\<lambda>v. 1.0 / v) (map2 (+) (mohsm_variance k ! i) (mohsm_variance k ! j));
              inv_lengthscale = 1.0 / (lengthscale_i + lengthscale_j);
              diff_mean = map2 (-) (mohsm_mean k ! i) (mohsm_mean k ! j);
              magnitude = mohsm_magnitude k ! i * mohsm_magnitude k ! j
                  * exp (- (pi\<^sup>2) * dot diff_mean (map2 (*) inv_variances diff_mean));
              mean = map2 (*) inv_variances
                  (map2 (+) (map2 (*) (mohsm_variance k ! i) (mohsm_mean k ! j))
                            (map2 (*) (mohsm_variance k ! j) (mohsm_mean k ! i)));
              variance = map2 (*) (map2 (*) (map ((*) 2.0) (mohsm_variance k ! i)) inv_variances)
                  (mohsm_variance k ! j);
              lengthscale = 2.0 * lengthscale_i * inv_lengthscale * lengthscale_j;
              delay = map2 (-) (mohsm_delay k ! i) (mohsm_delay k ! j);
              phase = mohsm_phase k ! i - mohsm_phase k ! j;
              alpha = magnitude * mohsm_twopi k * sqrt (prod_list variance)
                  * sqrt lengthscale ^ input_dims k;
              exp1 = ew exp (ew ((*) (- 0.5))
                  (tensordot (ew3 (\<lambda>t. map (\<lambda>t. t\<^sup>2) (map2 (+) t delay)) tau) variance));
              exp2 = ew exp (ew ((*) (- 0.5))
                  (tensordot (ew3 (\<lambda>a. map (\<lambda>t. t\<^sup>2) (map2 (-) a (mohsm_center k))) avg)
                     (map ((*) lengthscale) (replicate (input_dims k) 1))));
              cos = ew cos (ew (\<lambda>d. d + phase) (ew ((*) (2.0 * pi))
                  (tensordot (ew3 (\<lambda>t. map2 (+) t delay) tau) mean)))
          in Inr (block X1 X2 (ew2 (*) (ew2 (*) (ew ((*) alpha) exp1) cos) exp2)))"

definition MOHSM_Ksub_diag ::
  "MultiOutputHarmonizableSpectralKernel \<Rightarrow> nat \<Rightarrow> points \<Rightarrow> error + real list" where
  "MOHSM_Ksub_diag k i X1 =
     (if \<not> i < output_dims k then Inl IndexError
      else
        let X1 = active_input (active_dims k) X1;
            variance = mohsm_variance k ! i;
            lengthscale = (mohsm_lengthscale k ! i)\<^sup>2;
            alpha = (mohsm_magnitude k ! i)\<^sup>2 * mohsm_twopi k * sqrt (prod_list variance)
                * sqrt lengthscale ^ input_dims k;
            exp2 = map exp (map ((*) (- 0.5))
                (map (\<lambda>x. dot (map (\<lambda>t. t\<^sup>2) (map2 (-) x (mohsm_center k)))
                   (map ((*) lengthscale) (replicate (input_dims k) 1))) X1))
        in Inr (map ((*) alpha) exp2))"

subsection \<open>Kernels built from single-output kernels\<close>

text \<open>
  The single-output \<open>Kernel\<close> class is in the missing \<open>kernel.py\<close>; of a sub-kernel only
  its methods \<open>K(X1, X2)\<close> and \<open>K_diag(X1)\<close> are used, which are the fields here.
\<close>

record Kernel =
  K :: "points \<Rightarrow> points option \<Rightarrow> tensor"
  K_diag :: "points \<Rightarrow> real list"

record IndependentMultiOutputKernel = MultiOutputKernel +
  imo_kernels :: "Kernel list"

definition IMO_Ksub ::
  "IndependentMultiOutputKernel \<Rightarrow> nat \<Rightarrow> nat \<Rightarrow> points \<Rightarrow> points option \<Rightarrow> error + tensor" where
  "IMO_Ksub k i j X1 X2 =
     (let X1 = active_input (active_dims k) X1;
          X2 = map_option (active_input (active_dims k)) X2
      in if i = j then
        if \<not> i < length (imo_kernels k) then Inl IndexError
        else Inr (K (imo_kernels k ! i) X1 X2)
      else
        let X2 = (case X2 of None \<Rightarrow> X1 | Some X2 \<Rightarrow> X2)
        in Inr (zeros (length X1) (length X2)))"

definition IMO_Ksub_diag ::
  "IndependentMultiOutputKernel \<Rightarrow> nat \<Rightarrow> points \<Rightarrow> error + real list" where
  "IMO_Ksub_diag k i X1 =
     (let X1 = active_input (active_dims k) X1
      in if \<not> i < length (imo_kernels k) then Inl IndexError
         else Inr (K_diag (imo_kernels k ! i) X1))"

record LinearModelOfCoregionalizationKernel = MultiOutputKernel +
  lmc_kernels :: "Kernel list"
  lmc_weight :: "real list list list"

text \<open>
  \<open>torch.stack(Ts, dim=2)\<close> of matrices and \<open>torch.stack(ds, dim=1)\<close> of vectors: they
  raise for an empty list and for tensors of different shapes.
\<close>

definition stack2 :: "tensor list \<Rightarrow> error + tensor3 \<times> nat \<times> nat" where
  "stack2 Ts =
     (case Ts of
        [] \<Rightarrow> Inl RuntimeError
      | T0 # _ \<Rightarrow>
          if \<not> list_all (\<lambda>T. shape0 T = shape0 T0 \<and> shape1 T = shape1 T0) Ts then Inl RuntimeError
          else Inr (map (\<lambda>a. map (\<lambda>b. map (\<lambda>T. data T ! a ! b) Ts) [0..<shape1 T0]) [0..<shape0 T0],
                    shape0 T0, shape1 T0))"

definition stack1 :: "real list list \<Rightarrow> error + mat" where
  "stack1 ds =
     (case ds of
        [] \<Rightarrow> Inl RuntimeError
      | d0 # _ \<Rightarrow>
          if \<not> list_all (\<lambda>d. length d = length d0) ds then Inl RuntimeError
          else Inr (map (\<lambda>a. map (\<lambda>d. d ! a) ds) [0..<length d0]))"

definition LMC_Ksub ::
  "LinearModelOfCoregionalizationKernel \<Rightarrow> nat \<Rightarrow> nat \<Rightarrow> points \<Rightarrow> points option \<Rightarrow> error + tensor" where
  "LMC_Ksub k i j X1 X2 =
     (let X1 = active_input (active_dims k) X1;
          X2 = map_option (active_input (active_dims k)) X2
      in if \<not> (i < output_dims k \<and> j < output_dims k) then Inl IndexError
      else
        let weight = map2 (\<lambda>wi wj. sum_list (map2 (*) wi wj)) (lmc_weight k ! i) (lmc_weight k ! j)
        in bind_err (stack2 (map (\<lambda>ker. K ker X1 X2) (lmc_kernels k))) (\<lambda>(kernels, n, m).
             Inr \<lparr>shape0 = n, shape1 = m, data = tensordot kernels weight\<rparr>))"

definition LMC_Ksub_diag ::
  "LinearModelOfCoregionalizationKernel \<Rightarrow> nat \<Rightarrow> points \<Rightarrow> error + real list" where
  "LMC_Ksub_diag k i X1 =
     (let X1 = active_input (active_dims k) X1
      in if \<not> i < output_dims k then Inl IndexError
      else
        let weight = map (\<lambda>wi. sum_list (map (\<lambda>w. w\<^sup>2) wi)) (lmc_weight k ! i)
        in bind_err (stack1 (map (\<lambda>ker. K_diag ker X1) (lmc_kernels k))) (\<lambda>kernels.
             Inr (map (\<lambda>row. dot row weight) kernels)))"

subsection \<open>Every concrete multi-output kernel\<close>

text \<open>The classes of \<open>multioutput.py\<close>; a method call dispatches on the class.\<close>

datatype multi_output_kernel =
    IMO IndependentMultiOutputKernel
  | MOSM MultiOutputSpectralKernel
  | uMOSM UncoupledMultiOutputSpectralKernel
  | CSM CrossSpectralKernel
  | LMC LinearModelOfCoregionalizationKernel
  | CONV GaussianConvolutionProcessKernel
  | MOHSM MultiOutputHarmonizableSpectralKernel

fun Ksub :: "multi_output_kernel \<Rightarrow> nat \<Rightarrow> nat \<Rightarrow> points \<Rightarrow> points option \<Rightarrow> error + tensor" where
  "Ksub (IMO k) = IMO_Ksub k"
| "Ksub (MOSM k) = MOSM_Ksub k"
| "Ksub (uMOSM k) = uMOSM_Ksub k"
| "Ksub (CSM k) = CSM_Ksub k"
| "Ksub (LMC k) = LMC_Ksub k"
| "Ksub (CONV k) = CONV_Ksub k"
| "Ksub (MOHSM k) = MOHSM_Ksub k"

fun Ksub_diag :: "multi_output_kernel \<Rightarrow> nat \<Rightarrow> points \<Rightarrow> error + real list" where
  "Ksub_diag (IMO k) = IMO_Ksub_diag k"
| "Ksub_diag (MOSM k) = MOSM_Ksub_diag k"
| "Ksub_diag (uMOSM k) = uMOSM_Ksub_diag k"
| "Ksub_diag (CSM k) = CSM_Ksub_diag k"
| "Ksub_diag (LMC k) = LMC_Ksub_diag k"
| "Ksub_diag (CONV k) = CONV_Ksub_diag k"
| "Ksub_diag (MOHSM k) = MOHSM_Ksub_diag k"

section \<open>Entry formulas\<close>

text \<open>
  The matrix whose entry for the points \<open>x\<close> of \<open>X1\<close> and \<open>x'\<close> of \<open>X2\<close> is \<open>f x x'\<close>.
  The functions below give, for each kernel, the entry its \<open>Ksub\<close> computes; the lemmas
  \<open>*_Ksub_same\<close> and \<open>*_Ksub_cross\<close> prove that the blocks have these entries.
\<close>

definition gram :: "('a \<Rightarrow> 'b \<Rightarrow> 'c) \<Rightarrow> 'a list \<Rightarrow> 'b list \<Rightarrow> 'c list list" where
  "gram f X1 X2 = map (\<lambda>x. map (\<lambda>x'. f x x') X2) X1"

definition cross_inv :: "real list \<Rightarrow> real list \<Rightarrow> real list" where
  "cross_inv vi vj = map (\<lambda>v. 1.0 / v) (map2 (+) vi vj)"

definition cross_mean :: "real list \<Rightarrow> real list \<Rightarrow> real list \<Rightarrow> real list \<Rightarrow> real list" where
  "cross_mean vi vj mi mj =
     map2 (*) (cross_inv vi vj) (map2 (+) (map2 (*) vi mj) (map2 (*) vj mi))"

definition cross_variance :: "real list \<Rightarrow> real list \<Rightarrow> real list" where
  "cross_variance vi vj = map2 (*) (map2 (*) (map ((*) 2.0) vi) (cross_inv vi vj)) vj"

definition cross_attenuation :: "real list \<Rightarrow> real list \<Rightarrow> real list \<Rightarrow> real list \<Rightarrow> real" where
  "cross_attenuation vi vj mi mj =
     exp (- (pi\<^sup>2) * dot (map2 (-) mi mj) (map2 (*) (cross_inv vi vj) (map2 (-) mi mj)))"

definition cross_lengthscale :: "real \<Rightarrow> real \<Rightarrow> real" where
  "cross_lengthscale li lj = 2.0 * li\<^sup>2 * (1.0 / (li\<^sup>2 + lj\<^sup>2)) * lj\<^sup>2"

definition envelope :: "real \<Rightarrow> nat \<Rightarrow> real list \<Rightarrow> real list \<Rightarrow> real" where
  "envelope lengthscale D center a =
     exp (- 0.5 * dot (map (\<lambda>t. t\<^sup>2) (map2 (-) a center)) (map ((*) lengthscale) (replicate D 1)))"

definition mosm_same :: "MultiOutputSpectralKernel \<Rightarrow> nat \<Rightarrow> real list \<Rightarrow> real list \<Rightarrow> real" where
  "mosm_same k i x x' =
     (mosm_magnitude k ! i)\<^sup>2 * mosm_twopi k * sqrt (prod_list (mosm_variance k ! i))
     * exp (- 0.5 * dot (map (\<lambda>t. t\<^sup>2) (map2 (-) x x')) (mosm_variance k ! i))
     * cos (2.0 * pi * dot (map2 (-) x x') (mosm_mean k ! i))"

definition mosm_cross ::
  "MultiOutputSpectralKernel \<Rightarrow> nat \<Rightarrow> nat \<Rightarrow> real list \<Rightarrow> real list \<Rightarrow> real" where
  "mosm_cross k i j x x' =
     (let vi = mosm_variance k ! i; vj = mosm_variance k ! j;
          mi = mosm_mean k ! i; mj = mosm_mean k ! j;
          delay = map2 (-) (mosm_delay k ! i) (mosm_delay k ! j);
          phase = mosm_phase k ! i - mosm_phase k ! j
      in mosm_magnitude k ! i * mosm_magnitude k ! j * cross_attenuation vi vj mi mj
         * mosm_twopi k * sqrt (prod_list (cross_variance vi vj))
         * exp (- 0.5 * dot (map (\<lambda>t. t\<^sup>2) (map2 (+) (map2 (-) x x') delay)) (cross_variance vi vj))
         * cos (2.0 * pi * (dot (map2 (+) (map2 (-) x x') delay) (cross_mean vi vj mi mj) + phase)))"

definition umosm_same ::
  "UncoupledMultiOutputSpectralKernel \<Rightarrow> nat \<Rightarrow> real list \<Rightarrow> real list \<Rightarrow> real" where
  "umosm_same k i x x' =
     mm_T (tril (umosm_magnitude k)) (tril (umosm_magnitude k)) ! i ! i
     * mosm_twopi k * sqrt (prod_list (umosm_variance k ! i))
     * exp (- 0.5 * dot (map (\<lambda>t. t\<^sup>2) (map2 (-) x x')) (umosm_variance k ! i))
     * cos (2.0 * pi * dot (map2 (-) x x') (umosm_mean k ! i))"

definition umosm_cross ::
  "UncoupledMultiOutputSpectralKernel \<Rightarrow> nat \<Rightarrow> nat \<Rightarrow> real list \<Rightarrow> real list \<Rightarrow> real" where
  "umosm_cross k i j x x' =
     (let vi = umosm_variance k ! i; vj = umosm_variance k ! j;
          mi = umosm_mean k ! i; mj = umosm_mean k ! j;
          delay = map2 (-) (umosm_delay k ! i) (umosm_delay k ! j);
          phase = umosm_phase k ! i - umosm_phase k ! j
      in mm_T (tril (umosm_magnitude k)) (tril (umosm_magnitude k)) ! i ! j
         * cross_attenuation vi vj mi mj
         * mosm_twopi k * sqrt (prod_list (cross_variance vi vj))
         * exp (- 0.5 * dot (map (\<lambda>t. t\<^sup>2) (map2 (+) (map2 (-) x x') delay)) (cross_variance vi vj))
         * cos (2.0 * pi * dot (map2 (+) (map2 (-) x x') delay) (cross_mean vi vj mi mj) + phase))"

definition csm_same :: "CrossSpectralKernel \<Rightarrow> nat \<Rightarrow> real list \<Rightarrow> real list \<Rightarrow> real" where
  "csm_same k i x x' =
     sum_list (map (\<lambda>a. a * exp (- 0.5 * dot (map (\<lambda>t. t\<^sup>2) (map2 (-) x x')) (csm_variance k))
                      * cos (2.0 * pi * dot (map2 (-) x x') (csm_mean k)))
               (csm_amplitude k ! i))"

definition csm_cross :: "CrossSpectralKernel \<Rightarrow> nat \<Rightarrow> nat \<Rightarrow> real list \<Rightarrow> real list \<Rightarrow> real" where
  "csm_cross k i j x x' =
     sum_list (map2 (\<lambda>a c. a * exp (- 0.5 * dot (map (\<lambda>t. t\<^sup>2) (map2 (-) x x')) (csm_variance k)) * c)
       (map sqrt (map2 (*) (csm_amplitude k ! i) (csm_amplitude k ! j)))
       (map (\<lambda>s. cos (2.0 * pi * (dot (map2 (-) x x') (csm_mean k) + s)))
          (map2 (-) (csm_shift k ! i) (csm_shift k ! j))))"

definition conv_cross ::
  "GaussianConvolutionProcessKernel \<Rightarrow> nat \<Rightarrow> nat \<Rightarrow> real list \<Rightarrow> real list \<Rightarrow> real" where
  "conv_cross k i j x x' =
     (let variances = map2 (+) (map2 (+) (conv_variance k ! i) (conv_variance k ! j))
            (conv_base_variance k)
      in conv_weight k ! i * conv_weight k ! j
         * sqrt (prod_list (conv_base_variance k) / prod_list variances)
         * exp (- 0.5 * dot (map2 (\<lambda>a b. (a - b)\<^sup>2) x x') (map (\<lambda>v. 1.0 / v) variances)))"

definition mohsm_same ::
  "MultiOutputHarmonizableSpectralKernel \<Rightarrow> nat \<Rightarrow> real list \<Rightarrow> real list \<Rightarrow> real" where
  "mohsm_same k i x x' =
     (mohsm_magnitude k ! i)\<^sup>2 * mohsm_twopi k * sqrt (prod_list (mohsm_variance k ! i))
     * sqrt ((mohsm_lengthscale k ! i)\<^sup>2) ^ input_dims k
     * exp (- 0.5 * dot (map (\<lambda>t. t\<^sup>2) (map2 (-) x x')) (mohsm_variance k ! i))
     * cos (2.0 * pi * dot (map2 (-) x x') (mohsm_mean k ! i))
     * envelope ((mohsm_lengthscale k ! i)\<^sup>2) (input_dims k) (mohsm_center k)
         (map2 (\<lambda>a b. (a + b) / 2) x x')"

definition mohsm_cross ::
  "MultiOutputHarmonizableSpectralKernel \<Rightarrow> nat \<Rightarrow> nat \<Rightarrow> real list \<Rightarrow> real list \<Rightarrow> real" where
  "mohsm_cross k i j x x' =
     (let vi = mohsm_variance k ! i; vj = mohsm_variance k ! j;
          mi = mohsm_mean k ! i; mj = mohsm_mean k ! j;
          lengthscale = cross_lengthscale (mohsm_lengthscale k ! i) (mohsm_lengthscale k ! j);
          delay = map2 (-) (mohsm_delay k ! i) (mohsm_delay k ! j);
          phase = mohsm_phase k ! i - mohsm_phase k ! j
      in mohsm_magnitude k ! i * mohsm_magnitude k ! j * cross_attenuation vi vj mi mj
         * mohsm_twopi k * sqrt (prod_list (cross_variance vi vj))
         * sqrt lengthscale ^ input_dims k
         * exp (- 0.5 * dot (map (\<lambda>t. t\<^sup>2) (map2 (+) (map2 (-) x x') delay)) (cross_variance vi vj))
         * cos (2.0 * pi * dot (map2 (+) (map2 (-) x x') delay) (cross_mean vi vj mi mj) + phase)
         * envelope lengthscale (input_dims k) (mohsm_center k) (map2 (\<lambda>a b. (a + b) / 2) x x'))"

section \<open>Assumptions on the sub-kernels\<close>

text \<open>
  What the properties of \<open>IndependentMultiOutputKernel\<close> and
  \<open>LinearModelOfCoregionalizationKernel\<close> need of their sub-kernels: blocks of shape
  \<open>(|X1|, |X2|)\<close> that are symmetric, and a \<open>K_diag\<close> that is the diagonal of \<open>K\<close>.
  \<open>LinearKernel\<close> is an example of such a sub-kernel.
\<close>

definition Kernel_symmetric :: "Kernel \<Rightarrow> bool" where
  "Kernel_symmetric ker \<longleftrightarrow>
     (\<forall>X1 X2. shape0 (K ker X1 (Some X2)) = length X1
            \<and> shape1 (K ker X1 (Some X2)) = length X2
            \<and> transpose_t (K ker X1 (Some X2)) = K ker X2 (Some X1))"

definition Kernel_diagonal :: "Kernel \<Rightarrow> bool" where
  "Kernel_diagonal ker \<longleftrightarrow>
     (\<forall>X. shape0 (K ker X (Some X)) = length X
         \<and> shape1 (K ker X (Some X)) = length X
         \<and> K_diag ker X = diagonal (K ker X (Some X)))"

definition LinearKernel :: Kernel where
  "LinearKernel =
     \<lparr>K = (\<lambda>X1 X2. \<lparr>shape0 = length X1, shape1 = length (other X1 X2),
                      data = gram dot X1 (other X1 X2)\<rparr>),
      K_diag = (\<lambda>X1. map (\<lambda>x. dot x x) X1)\<rparr>"

definition subkernels :: "multi_output_kernel \<Rightarrow> Kernel list" where
  "subkernels k = (case k of IMO r \<Rightarrow> imo_kernels r | LMC r \<Rightarrow> lmc_kernels r | _ \<Rightarrow> [])"

text \<open>The magnitude of uMOSM has shape \<open>(output_dims, output_dims)\<close>.\<close>

definition magnitude_shape :: "multi_output_kernel \<Rightarrow> bool" where
  "magnitude_shape k =
     (case k of uMOSM r \<Rightarrow> length (umosm_magnitude r) = output_dims r | _ \<Rightarrow> True)"

section \<open>MOHSM against MOSM, as the specification words it\<close>

text \<open>
  The MOSM kernel with the magnitude, mean and variance (and delay, phase) of a MOHSM
  kernel; \<open>scale_entries\<close> multiplies every entry of a block by a factor that depends
  on the two points. \<open>spec_MOHSM_same\<close> is the specification's same-channel block: the
  MOSM block times \<open>exp(-(avg - center)\<^sup>2 * lengthscale / 2)\<close>.
\<close>

definition MOHSM_as_MOSM :: "MultiOutputHarmonizableSpectralKernel \<Rightarrow> MultiOutputSpectralKernel" where
  "MOHSM_as_MOSM k =
     \<lparr>output_dims = output_dims k, input_dims = input_dims k, active_dims = active_dims k,
      mosm_magnitude = mohsm_magnitude k, mosm_mean = mohsm_mean k,
      mosm_variance = mohsm_variance k, mosm_delay = mohsm_delay k, mosm_phase = mohsm_phase k\<rparr>"

definition scale_entries :: "(real list \<Rightarrow> real list \<Rightarrow> real) \<Rightarrow> points \<Rightarrow> points option \<Rightarrow> tensor \<Rightarrow> tensor" where
  "scale_entries f X1 X2 T = T\<lparr>data := ew2 (*) (data T) (gram f X1 (other X1 X2))\<rparr>"

definition spec_MOHSM_same ::
  "MultiOutputHarmonizableSpectralKernel \<Rightarrow> nat \<Rightarrow> points \<Rightarrow> points option \<Rightarrow> error + tensor" where
  "spec_MOHSM_same k i X1 X2 =
     map_sum id
       (scale_entries
          (\<lambda>x x'. envelope (mohsm_lengthscale k ! i) (input_dims k) (mohsm_center k)
                     (map2 (\<lambda>a b. (a + b) / 2) x x'))
          (active_input (active_dims k) X1) (map_option (active_input (active_dims k)) X2))
       (MOSM_Ksub (MOHSM_as_MOSM k) i i X1 X2)"

section \<open>Verified properties\<close>

subsection \<open>StudentTLikelihood moments\<close>

lemma full_nan_shape: "map length (full_nan f) = map length f"
  by (simp add: full_nan_def)

lemma full_nan_entries: "row \<in> set (full_nan f) \<Longrightarrow> v \<in> set row \<Longrightarrow> v = NaN"
  by (auto simp: full_nan_def)

text \<open>
  Claim C7. The moments of StudentTLikelihood follow the degrees-of-freedom regimes:
  when \<open>dof \<le> 1\<close>, \<open>mean(f)\<close> has the shape of \<open>f\<close> and every entry is NaN, otherwise it is
  \<open>f\<close> itself; when \<open>dof \<le> 2\<close>, \<open>variance(f)\<close> is the value NaN (nothing is raised),
  otherwise it is exactly \<open>scale\<^sup>2 * dof / (dof - 2)\<close>, which is \<open>3 * scale\<^sup>2\<close> at \<open>dof = 3\<close>.
\<close>

theorem StudentT_moments:
  "(dof l \<le> 1 \<longrightarrow>
      map length (StudentT_mean l f) = map length f \<and>
      (\<forall>row \<in> set (StudentT_mean l f). \<forall>v \<in> set row. v = NaN))
   \<and> (1 < dof l \<longrightarrow> StudentT_mean l f = f)
   \<and> (dof l \<le> 2 \<longrightarrow> StudentT_variance l f = NaN)
   \<and> (2 < dof l \<longrightarrow> StudentT_variance l f = Val ((scale l)\<^sup>2 * dof l / (dof l - 2)))
   \<and> (dof l = 3 \<longrightarrow> StudentT_variance l f = Val (3 * (scale l)\<^sup>2))"
proof (intro conjI impI)
  assume "dof l \<le> 1"
  then show "map length (StudentT_mean l f) = map length f"
    by (simp add: StudentT_mean_def full_nan_shape)
next
  assume "dof l \<le> 1"
  then have "StudentT_mean l f = full_nan f"
    by (simp add: StudentT_mean_def)
  then show "\<forall>row \<in> set (StudentT_mean l f). \<forall>v \<in> set row. v = NaN"
    using full_nan_entries by (metis (full_types))
next
  assume "1 < dof l"
  then show "StudentT_mean l f = f"
    by (simp add: StudentT_mean_def)
next
  assume "dof l \<le> 2"
  then show "StudentT_variance l f = NaN"
    by (simp add: StudentT_variance_def)
next
  assume "2 < dof l"
  then show "StudentT_variance l f = Val ((scale l)\<^sup>2 * dof l / (dof l - 2))"
    by (simp add: StudentT_variance_def)
next
  assume "dof l = 3"
  then show "StudentT_variance l f = Val (3 * (scale l)\<^sup>2)"
    by (simp add: StudentT_variance_def)
qed

theorem StudentT_moments_witness:
  "StudentT_mean \<lparr>dof = 3, scale = 2\<rparr> [[Val 5], [Val 7]] = [[Val 5], [Val 7]]
   \<and> StudentT_variance \<lparr>dof = 3, scale = 2\<rparr> [[Val 5], [Val 7]] = Val 12
   \<and> StudentT_variance \<lparr>dof = 1, scale = 2\<rparr> [[Val 5]] = NaN
   \<and> StudentT_mean \<lparr>dof = 1, scale = 2\<rparr> [[Val 5, NaN], [Val 7, Val 0]]
       = [[NaN, NaN], [NaN, NaN]]"
proof -
  let ?l3 = "\<lparr>dof = 3, scale = 2\<rparr>" and ?l1 = "\<lparr>dof = 1, scale = 2\<rparr>"
  have h3: "1 < dof ?l3" "dof ?l3 = 3" by simp_all
  have h1: "dof ?l1 \<le> 2" by simp
  have m3: "StudentT_mean ?l3 [[Val 5], [Val 7]] = [[Val 5], [Val 7]]"
    using StudentT_moments [of ?l3 "[[Val 5], [Val 7]]"] h3(1) by blast
  have "StudentT_variance ?l3 [[Val 5], [Val 7]] = Val (3 * (scale ?l3)\<^sup>2)"
    using StudentT_moments [of ?l3 "[[Val 5], [Val 7]]"] h3(2) by blast
  then have v3: "StudentT_variance ?l3 [[Val 5], [Val 7]] = Val 12" by simp
  have v1: "StudentT_variance ?l1 [[Val 5]] = NaN"
    using StudentT_moments [of ?l1 "[[Val 5]]"] h1 by blast
  have m1: "StudentT_mean ?l1 [[Val 5, NaN], [Val 7, Val 0]] = [[NaN, NaN], [NaN, NaN]]"
    by (simp add: StudentT_mean_def full_nan_def)
  show ?thesis using m3 v3 v1 m1 by blast
qed

subsection \<open>BernoulliLikelihood: sampling and the Monte-Carlo interval\<close>

text \<open>
  Claim C9. \<open>BernoulliLikelihood.sample(f, X)\<close> returns \<open>f\<close> unchanged, for every \<open>f\<close>.
  So for every link other than \<open>inv_probit\<close>, where \<open>predict\<close> is the Monte-Carlo fallback
  of the base class, the interval boundaries are rows of the sorted latent normal
  samples themselves: no Bernoulli observation is drawn.
\<close>

theorem Bernoulli_sample_is_latent:
  "Bernoulli_sample f = Inr f \<and>
   (h \<noteq> inv_probit \<longrightarrow>
      Bernoulli_predict erf h q mu var (Some (c0, c1)) sigma n z =
      bind_err (GaussHermiteQuadrature_call q mu var (Bernoulli_mean erf h)) (\<lambda>m.
        let latent = sort_dim0 (length m) (Normal_sample m var n z) in
        bind_err (getitem0 latent (py_int (c0 * real n + 0.5))) (\<lambda>lo.
        bind_err (getitem0 latent (py_int (c1 * real n + 0.5))) (\<lambda>up.
          Inr (Interval m lo up)))))"
  by (simp add: Bernoulli_sample_def Bernoulli_predict_def Likelihood_predict_def
      bind_err_def Let_def)

lemma quadrature_deg1_square:
  "GaussHermiteQuadrature_call \<lparr>q_t = [0], q_w = [1]\<rparr> [3] [4] (Bernoulli_mean erf square)
     = Inr [9]"
  by (simp add: GaussHermiteQuadrature_call_def quadrature_nodes_def mm_col_def
      Bernoulli_mean_def bind_err_def apply_link_def)

lemma Normal_sample_code_draws:
  "Normal_sample [9] [4] 2 (\<lambda>s p. if s = 0 then - 1 else 1) = [[5], [13]]"
  by (simp add: Normal_sample_def upt_rec)

lemma Normal_sample_spec_draws:
  "Normal_sample [3] (map sqrt [4]) 2 (\<lambda>s p. if s = 0 then - 1 else 1) = [[1], [5]]"
  by (simp add: Normal_sample_def upt_rec)

lemma sort_dim0_two_draws:
  "sort_dim0 (Suc 0) [[5], [13]] = [[5], [13]]" "sort_dim0 (Suc 0) [[1], [5]] = [[1], [5]]"
  by (simp_all add: sort_dim0_def column_def upt_rec)

theorem Bernoulli_sample_is_latent_witness:
  "Bernoulli_predict (\<lambda>x. 0) square \<lparr>q_t = [0], q_w = [1]\<rparr> [3] [4] (Some (0, 1 / 2)) None 2
     (\<lambda>s p. if s = 0 then - 1 else 1) = Inr (Interval [9] [5] [13])"
proof -
  have "square \<noteq> inv_probit" by simp
  then show ?thesis
    using Bernoulli_sample_is_latent [of "[[0]]" square "\<lambda>x. 0" "\<lparr>q_t = [0], q_w = [1]\<rparr>" "[3]" "[4]"
        0 "1 / 2" None 2 "\<lambda>s p. if s = 0 then - 1 else 1"]
    by (simp add: quadrature_deg1_square Normal_sample_code_draws sort_dim0_two_draws
        bind_err_def py_int_def getitem0_def)
qed

subsection \<open>Likelihood.predict: the Monte-Carlo fallback\<close>

text \<open>
  Claim C1. The Monte-Carlo fallback of \<open>predict\<close> is claimed to draw its latent samples
  from the normal distribution with mean \<open>mu\<close> and variance \<open>var\<close>. The code draws them
  from \<open>Normal(mu, var)\<close> after \<open>mu\<close> has been rebound to the quadrature of \<open>mean\<close>, and
  hands \<open>var\<close> over as the scale, that is as the standard deviation. For
  \<open>BernoulliLikelihood(link=square, quadratures=1)\<close> with \<open>mu = [[3]]\<close>, \<open>var = [[4]]\<close>,
  \<open>ci = [0, 0.5]\<close>, \<open>n = 2\<close> and the standard normal draws \<open>-1\<close> and \<open>1\<close> the code returns the
  boundaries \<open>5\<close> and \<open>13\<close>, while the fallback as specified returns \<open>1\<close> and \<open>5\<close>.
\<close>

theorem Likelihood_predict_samples_scale:
  "Bernoulli_predict erf square \<lparr>q_t = [0], q_w = [1]\<rparr> [3] [4] (Some (0, 1 / 2)) None 2
     (\<lambda>s p. if s = 0 then - 1 else 1) = Inr (Interval [9] [5] [13])
   \<and> spec_monte_carlo_predict \<lparr>q_t = [0], q_w = [1]\<rparr> (Bernoulli_mean erf square)
       Bernoulli_sample [3] [4] (0, 1 / 2) 2 (\<lambda>s p. if s = 0 then - 1 else 1)
     = Inr (Interval [9] [1] [5])"
proof
  show "Bernoulli_predict erf square \<lparr>q_t = [0], q_w = [1]\<rparr> [3] [4] (Some (0, 1 / 2)) None 2
     (\<lambda>s p. if s = 0 then - 1 else 1) = Inr (Interval [9] [5] [13])"
    by (simp add: Bernoulli_predict_def Likelihood_predict_def quadrature_deg1_square
        Normal_sample_code_draws sort_dim0_two_draws bind_err_def Bernoulli_sample_def
        py_int_def getitem0_def)
  show "spec_monte_carlo_predict \<lparr>q_t = [0], q_w = [1]\<rparr> (Bernoulli_mean erf square)
       Bernoulli_sample [3] [4] (0, 1 / 2) 2 (\<lambda>s p. if s = 0 then - 1 else 1)
     = Inr (Interval [9] [1] [5])"
    using Normal_sample_spec_draws
    by (simp add: spec_monte_carlo_predict_def quadrature_deg1_square sort_dim0_two_draws
        bind_err_def Bernoulli_sample_def getitem0_def)
qed

subsection \<open>merge_data and split_data\<close>

lemma update_slice_append:
  "length A = n \<Longrightarrow> length Z = k \<Longrightarrow>
   update_slice n k g (A @ Z @ R) = A @ map (\<lambda>i. g i (Z ! i)) [0..<k] @ R"
  by (simp add: update_slice_def nth_append)

lemma assign_step_X:
  assumes "data X = A @ Z @ R" "length A = n" "length Z = shape0 x"
    and "wf_tensor x" "shape1 X = Suc (shape1 x)" "\<forall>row \<in> set Z. row \<noteq> []"
  shows "assign_cols_from 1 (assign_col0 X n (shape0 x) c) n x
         = Inr (X\<lparr>data := A @ map ((#) c) (data x) @ R\<rparr>)"
proof -
  let ?Z' = "map (\<lambda>i. (Z ! i)[0 := c]) [0..<shape0 x]"
  have d1: "data (assign_col0 X n (shape0 x) c) = A @ ?Z' @ R"
    using assms(1-3) by (simp add: assign_col0_def update_slice_append)
  have len: "length ?Z' = shape0 x" by simp
  have lx: "length (data x) = shape0 x" using assms(4) by (simp add: wf_tensor_def)
  have "map (\<lambda>i. take 1 (?Z' ! i) @ data x ! i) [0..<shape0 x] = map (\<lambda>i. c # data x ! i) [0..<shape0 x]"
  proof (rule map_cong[OF refl])
    fix i assume "i \<in> set [0..<shape0 x]"
    then have i: "i < shape0 x" by simp
    then have "Z ! i \<noteq> []" using assms(3,6) by (metis nth_mem)
    then obtain a as where "Z ! i = a # as" by (cases "Z ! i") auto
    then show "take 1 (?Z' ! i) @ data x ! i = c # data x ! i" using i by simp
  qed
  also have "\<dots> = map ((#) c) (data x)"
    using lx by (metis (no_types, lifting) map_nth map_map o_def map_cong)
  finally have m: "map (\<lambda>i. take 1 (?Z' ! i) @ data x ! i) [0..<shape0 x] = map ((#) c) (data x)" .
  have "update_slice n (shape0 x) (\<lambda>i row. take 1 row @ data x ! i) (A @ ?Z' @ R)
        = A @ map ((#) c) (data x) @ R"
    using update_slice_append[OF assms(2) len, of "\<lambda>i row. take 1 row @ data x ! i" R] m by simp
  then show ?thesis
    using d1 assms(5) by (simp add: assign_cols_from_def assign_col0_def)
qed

lemma assign_step_Y:
  assumes "data Y = A @ Z @ R" "length A = n" "length Z = shape0 y"
    and "wf_tensor y" "shape1 Y = shape1 y"
  shows "assign_cols_from 0 Y n y = Inr (Y\<lparr>data := A @ data y @ R\<rparr>)"
proof -
  have lx: "length (data y) = shape0 y" using assms(4) by (simp add: wf_tensor_def)
  have "map (\<lambda>i. data y ! i) [0..<shape0 y] = data y"
    using lx map_nth by metis
  then have "update_slice n (shape0 y) (\<lambda>i row. take 0 row @ data y ! i) (A @ Z @ R)
        = A @ data y @ R"
    using update_slice_append[OF assms(2,3), of "\<lambda>i row. take 0 row @ data y ! i" R] by simp
  then show ?thesis using assms(1,5) by (simp add: assign_cols_from_def)
qed



lemma merge_loop_None:
  assumes "\<forall>x \<in> set xs. wf_tensor x \<and> shape1 x = D"
    and "shape1 X = Suc D" "data X = A @ Z" "length A = n"
    and "length Z = sum_list (map shape0 xs)" "\<forall>row \<in> set Z. row \<noteq> []"
  shows "merge_loop c n xs None X Y
         = Inr (X\<lparr>data := A @ concat (map2 tag_rows [c..<c + length xs] xs)\<rparr>, Y)"
  using assms
proof (induction xs arbitrary: c n A Z X)
  case Nil
  then show ?case by simp
next
  case (Cons x xs)
  let ?Z1 = "take (shape0 x) Z" and ?Z2 = "drop (shape0 x) Z"
  have wfx: "wf_tensor x" and sx: "shape1 x = D" using Cons.prems(1) by auto
  have lx: "length (data x) = shape0 x" using wfx by (simp add: wf_tensor_def)
  have l1: "length ?Z1 = shape0 x" using Cons.prems(5) by simp
  have dX: "data X = A @ ?Z1 @ ?Z2" using Cons.prems(3) by simp
  have ne1: "\<forall>row \<in> set ?Z1. row \<noteq> []" using Cons.prems(6) by (meson in_set_takeD)
  have ne2: "\<forall>row \<in> set ?Z2. row \<noteq> []" using Cons.prems(6) by (meson in_set_dropD)
  have step: "assign_cols_from 1 (assign_col0 X n (shape0 x) (real c)) n x
         = Inr (X\<lparr>data := A @ map ((#) (real c)) (data x) @ ?Z2\<rparr>)"
    using assign_step_X[OF dX Cons.prems(4) l1 wfx _ ne1] Cons.prems(2) sx by simp
  let ?X1 = "X\<lparr>data := (A @ tag_rows c x) @ ?Z2\<rparr>"
  have IH: "merge_loop (Suc c) (n + shape0 x) xs None ?X1 Y
      = Inr (?X1\<lparr>data := (A @ tag_rows c x) @ concat (map2 tag_rows [Suc c..<Suc c + length xs] xs)\<rparr>, Y)"
    apply (rule Cons.IH[where Z="?Z2"])
    using Cons.prems lx ne2 by (simp_all add: tag_rows_def)
  have upt0: "[c..<Suc (c + length xs)] = c # [Suc c..<Suc (c + length xs)]"
    by (rule upt_conv_Cons) simp
  then have upt: "[c..<c + length (x # xs)] = c # [Suc c..<Suc c + length xs]"
    by simp
  show ?case
    using step IH by (simp add: bind_err_def upt0 tag_rows_def del: upt_Suc)
qed

lemma merge_loop_Some:
  assumes "\<forall>x \<in> set xs. wf_tensor x \<and> shape1 x = D"
    and "shape1 X = Suc D" "data X = A @ Z" "length A = n"
    and "length Z = sum_list (map shape0 xs)" "\<forall>row \<in> set Z. row \<noteq> []"
    and "shape1 Y = 1" "data Y = B @ W" "length B = n" "length W = sum_list (map shape0 xs)"
    and "c + length xs \<le> length ys"
    and "\<forall>i < length xs. wf_tensor (ys ! (c + i)) \<and> shape1 (ys ! (c + i)) = 1
            \<and> shape0 (ys ! (c + i)) = shape0 (xs ! i)"
  shows "merge_loop c n xs (Some ys) X Y
         = Inr (X\<lparr>data := A @ concat (map2 tag_rows [c..<c + length xs] xs)\<rparr>,
                Y\<lparr>data := B @ concat (map data (take (length xs) (drop c ys)))\<rparr>)"
  using assms
proof (induction xs arbitrary: c n A Z X B W Y)
  case Nil
  then show ?case by simp
next
  case (Cons x xs)
  let ?Z1 = "take (shape0 x) Z" and ?Z2 = "drop (shape0 x) Z"
  let ?W1 = "take (shape0 x) W" and ?W2 = "drop (shape0 x) W"
  let ?y = "ys ! c"
  have wfx: "wf_tensor x" and sx: "shape1 x = D" using Cons.prems(1) by auto
  have y0: "wf_tensor ?y \<and> shape1 ?y = 1 \<and> shape0 ?y = shape0 x"
    using Cons.prems(12)[rule_format, of 0] by simp
  have lx: "length (data x) = shape0 x" using wfx by (simp add: wf_tensor_def)
  have ly: "length (data ?y) = shape0 x" using y0 by (simp add: wf_tensor_def)
  have l1: "length ?Z1 = shape0 x" using Cons.prems(5) by simp
  have lw1: "length ?W1 = shape0 ?y" using Cons.prems(10) y0 by simp
  have dX: "data X = A @ ?Z1 @ ?Z2" using Cons.prems(3) by simp
  have dY: "data Y = B @ ?W1 @ ?W2" using Cons.prems(8) by simp
  have ne1: "\<forall>row \<in> set ?Z1. row \<noteq> []" using Cons.prems(6) by (meson in_set_takeD)
  have ne2: "\<forall>row \<in> set ?Z2. row \<noteq> []" using Cons.prems(6) by (meson in_set_dropD)
  have step: "assign_cols_from 1 (assign_col0 X n (shape0 x) (real c)) n x
         = Inr (X\<lparr>data := A @ map ((#) (real c)) (data x) @ ?Z2\<rparr>)"
    using assign_step_X[OF dX Cons.prems(4) l1 wfx _ ne1] Cons.prems(2) sx by simp
  have stepY: "assign_cols_from 0 Y n ?y = Inr (Y\<lparr>data := B @ data ?y @ ?W2\<rparr>)"
    using assign_step_Y[OF dY Cons.prems(9) lw1] y0 Cons.prems(7) by simp
  let ?X1 = "X\<lparr>data := (A @ tag_rows c x) @ ?Z2\<rparr>"
  let ?Y1 = "Y\<lparr>data := (B @ data ?y) @ ?W2\<rparr>"
  have ys': "\<forall>i < length xs. wf_tensor (ys ! (Suc c + i)) \<and> shape1 (ys ! (Suc c + i)) = 1
            \<and> shape0 (ys ! (Suc c + i)) = shape0 (xs ! i)"
  proof (intro allI impI)
    fix i assume "i < length xs"
    then show "wf_tensor (ys ! (Suc c + i)) \<and> shape1 (ys ! (Suc c + i)) = 1
            \<and> shape0 (ys ! (Suc c + i)) = shape0 (xs ! i)"
      using Cons.prems(12)[rule_format, of "Suc i"] by simp
  qed
  have IH: "merge_loop (Suc c) (n + shape0 x) xs (Some ys) ?X1 ?Y1
      = Inr (?X1\<lparr>data := (A @ tag_rows c x) @ concat (map2 tag_rows [Suc c..<Suc c + length xs] xs)\<rparr>,
             ?Y1\<lparr>data := (B @ data ?y) @ concat (map data (take (length xs) (drop (Suc c) ys)))\<rparr>)"
    apply (rule Cons.IH[where Z="?Z2" and W="?W2"])
    using Cons.prems(1-11) lx ly ne2 ys' by (simp_all add: tag_rows_def)
  have upt0: "[c..<Suc (c + length xs)] = c # [Suc c..<Suc (c + length xs)]"
    by (rule upt_conv_Cons) simp
  then have upt: "[c..<c + length (x # xs)] = c # [Suc c..<Suc c + length xs]"
    by simp
  have "c < length ys" using Cons.prems(11) by simp
  then have tk: "take (Suc (length xs)) (drop c ys) = ?y # take (length xs) (drop (Suc c) ys)"
    by (simp add: Cons_nth_drop_Suc[symmetric])
  show ?case
    using step stepY IH by (simp add: bind_err_def upt0 tk tag_rows_def del: upt_Suc)
qed


lemma split_loop_length: "length (split_loop n N X) = length N"
  by (induction N arbitrary: n) auto

lemma split_loop_pieces:
  assumes "wf_tensor X" "n + sum_list N \<le> shape0 X"
  shows "map shape0 (split_loop n N X) = N
       \<and> (\<forall>p \<in> set (split_loop n N X). wf_tensor p \<and> shape1 p = shape1 X)
       \<and> concat (map data (split_loop n N X)) = take (sum_list N) (drop n (data X))"
  using assms(2)
proof (induction N arbitrary: n)
  case Nil
  then show ?case by simp
next
  case (Cons Nc N)
  have len: "length (data X) = shape0 X" and rows: "list_all (\<lambda>row. length row = shape1 X) (data X)"
    using assms(1) by (simp_all add: wf_tensor_def)
  have IH: "map shape0 (split_loop (n + Nc) N X) = N
       \<and> (\<forall>p \<in> set (split_loop (n + Nc) N X). wf_tensor p \<and> shape1 p = shape1 X)
       \<and> concat (map data (split_loop (n + Nc) N X)) = take (sum_list N) (drop (n + Nc) (data X))"
    using Cons.IH[of "n + Nc"] Cons.prems by simp
  have s0: "shape0 (slice_rows X n (n + Nc)) = Nc"
    using Cons.prems by (simp add: slice_rows_def)
  have "list_all (\<lambda>row. length row = shape1 X) (take Nc (drop n (data X)))"
    using rows by (metis append_take_drop_id list_all_append)
  then have wfp: "wf_tensor (slice_rows X n (n + Nc))"
    using Cons.prems len by (simp add: wf_tensor_def slice_rows_def)
  have s1: "shape1 (slice_rows X n (n + Nc)) = shape1 X" by (simp add: slice_rows_def)
  have "take Nc (drop n (data X)) @ take (sum_list N) (drop (n + Nc) (data X))
        = take (Nc + sum_list N) (drop n (data X))"
    by (simp add: take_add add.commute)
  then have cc: "concat (map data (split_loop n (Nc # N) X)) = take (sum_list (Nc # N)) (drop n (data X))"
    using IH by (simp add: slice_rows_def)
  show ?case using IH s0 wfp s1 cc by simp
qed

lemma split_loop_concat:
  assumes "data T = A @ concat (map data qs) @ R" "length A = n"
    and "\<forall>q \<in> set qs. wf_tensor q \<and> shape1 q = shape1 T" "shape0 T = length (data T)"
  shows "split_loop n (map shape0 qs) T = qs"
  using assms(1,2,3)
proof (induction qs arbitrary: n A)
  case Nil
  then show ?case by simp
next
  case (Cons q qs)
  have lq: "length (data q) = shape0 q" and sq: "shape1 q = shape1 T"
    using Cons.prems(3) by (simp_all add: wf_tensor_def)
  have "n + shape0 q \<le> shape0 T"
    using Cons.prems(1,2) lq assms(4) by simp
  then have a: "shape0 (slice_rows T n (n + shape0 q)) = shape0 q"
    by (simp add: slice_rows_def)
  have b: "data (slice_rows T n (n + shape0 q)) = data q"
    using Cons.prems(1,2) lq by (simp add: slice_rows_def)
  have c: "shape1 (slice_rows T n (n + shape0 q)) = shape1 q"
    using sq by (simp add: slice_rows_def)
  have hd: "slice_rows T n (n + shape0 q) = q"
    using a b c by (simp add: tensor.equality)
  have "split_loop (n + shape0 q) (map shape0 qs) T = qs"
    apply (rule Cons.IH[where A="A @ data q"])
    using Cons.prems lq by simp_all
  then show ?case using hd by simp
qed

lemma map2_prepend_props:
  "map shape0 (map2 prepend_channel cs ps) = map shape0 (take (length cs) ps)"
  "map data (map2 prepend_channel cs ps) = map2 tag_rows cs ps"
  by (induction cs ps rule: list_induct2') (simp_all add: prepend_channel_def tag_rows_def)

lemma map2_prepend_wf:
  assumes "\<forall>p \<in> set ps. wf_tensor p \<and> shape1 p = D"
  shows "\<forall>q \<in> set (map2 prepend_channel cs ps). wf_tensor q \<and> shape1 q = Suc D"
  using assms
  by (induction cs ps rule: list_induct2')
    (auto simp: prepend_channel_def wf_tensor_def list_all_iff)


lemma length_concat_data:
  "\<forall>q \<in> set qs. wf_tensor q \<Longrightarrow> length (concat (map data qs)) = sum_list (map shape0 qs)"
  by (induction qs) (simp_all add: wf_tensor_def)

lemma zeros_update: "(zeros a b)\<lparr>data := d\<rparr> = \<lparr>shape0 = a, shape1 = b, data = d\<rparr>"
  by (simp add: zeros_def)

lemma merge_data_pieces:
  assumes "xs \<noteq> []" "\<forall>x \<in> set xs. wf_tensor x \<and> shape1 x = D"
  shows "merge_data xs None
         = Inr (map shape0 xs,
                \<lparr>shape0 = sum_list (map shape0 xs), shape1 = Suc D,
                 data = concat (map2 tag_rows [0..<length xs] xs)\<rparr>, None)"
proof -
  obtain x0 rest where xs: "xs = x0 # rest" using assms(1) by (cases xs) auto
  have D: "shape1 x0 = D" using assms(2) xs by simp
  let ?S = "sum_list (map shape0 xs)"
  have "merge_loop 0 0 xs None (zeros ?S (Suc D)) (zeros ?S 1)
        = Inr ((zeros ?S (Suc D))\<lparr>data := [] @ concat (map2 tag_rows [0..<0 + length xs] xs)\<rparr>,
               zeros ?S 1)"
    by (rule merge_loop_None[where Z="replicate ?S (replicate (Suc D) 0)" and D=D])
      (use assms(2) in \<open>simp_all add: zeros_def\<close>)
  then have "merge_loop 0 0 xs None (zeros ?S (Suc D)) (zeros ?S 1)
        = Inr (\<lparr>shape0 = ?S, shape1 = Suc D, data = concat (map2 tag_rows [0..<length xs] xs)\<rparr>,
               zeros ?S 1)"
    by (simp add: zeros_update)
  then show ?thesis
    using D by (simp add: merge_data_def xs bind_err_def del: merge_loop.simps)
qed

lemma merge_data_pieces_outputs:
  assumes "xs \<noteq> []" "\<forall>x \<in> set xs. wf_tensor x \<and> shape1 x = D"
    and "length ys = length xs"
    and "\<forall>i < length xs. wf_tensor (ys ! i) \<and> shape1 (ys ! i) = 1 \<and> shape0 (ys ! i) = shape0 (xs ! i)"
  shows "merge_data xs (Some ys)
         = Inr (map shape0 xs,
                \<lparr>shape0 = sum_list (map shape0 xs), shape1 = Suc D,
                 data = concat (map2 tag_rows [0..<length xs] xs)\<rparr>,
                Some \<lparr>shape0 = sum_list (map shape0 xs), shape1 = 1, data = concat (map data ys)\<rparr>)"
proof -
  obtain x0 rest where xs: "xs = x0 # rest" using assms(1) by (cases xs) auto
  have D: "shape1 x0 = D" using assms(2) xs by simp
  let ?S = "sum_list (map shape0 xs)"
  have chk: "list_all (\<lambda>i. shape0 (ys ! i) = map shape0 xs ! i) [0..<length ys]"
    using assms(3,4) by (simp add: list_all_iff)
  have "merge_loop 0 0 xs (Some ys) (zeros ?S (Suc D)) (zeros ?S 1)
        = Inr ((zeros ?S (Suc D))\<lparr>data := [] @ concat (map2 tag_rows [0..<0 + length xs] xs)\<rparr>,
               (zeros ?S 1)\<lparr>data := [] @ concat (map data (take (length xs) (drop 0 ys)))\<rparr>)"
    by (rule merge_loop_Some[where Z="replicate ?S (replicate (Suc D) 0)" and D=D
          and W="replicate ?S (replicate 1 0)"])
      (use assms(2,3,4) in \<open>simp_all add: zeros_def\<close>)
  then have "merge_loop 0 0 xs (Some ys) (zeros ?S (Suc D)) (zeros ?S 1)
        = Inr (\<lparr>shape0 = ?S, shape1 = Suc D, data = concat (map2 tag_rows [0..<length xs] xs)\<rparr>,
               \<lparr>shape0 = ?S, shape1 = 1, data = concat (map data ys)\<rparr>)"
    using assms(3) by (simp add: zeros_update)
  then show ?thesis
    using D chk assms(3) by (simp add: merge_data_def xs bind_err_def del: merge_loop.simps)
qed

text \<open>
  Claim C2, as the code has it. \<open>merge_data\<close> always puts a new channel column in front
  and \<open>split_data\<close> never removes one, so splitting, merging and splitting again does
  not reproduce the pieces themselves. For a non-empty list \<open>N\<close> of row counts and
  stacked matrices \<open>X\<close> and \<open>Y\<close> (one column) with \<open>sum N\<close> rows: splitting succeeds;
  merging the pieces returns the same \<open>N\<close>, the rows of \<open>X\<close> in their order, each with
  the index of its channel in front, and \<open>Y\<close> itself; splitting that again returns, in
  the order of \<open>N\<close>, every original piece of \<open>X\<close> with its channel index in front of
  each row, and the original pieces of \<open>Y\<close> unchanged.
\<close>

theorem merge_split_roundtrip:
  assumes "N \<noteq> []" "wf_tensor X" "shape0 X = sum_list N"
    and "wf_tensor Y" "shape0 Y = sum_list N" "shape1 Y = 1"
  shows "let pieces = split_loop 0 N X; outputs = split_loop 0 N Y;
             tagged = map2 prepend_channel [0..<length N] pieces;
             X' = \<lparr>shape0 = sum_list N, shape1 = Suc (shape1 X), data = concat (map data tagged)\<rparr>
         in split_data N [X] = Inr (One pieces)
          \<and> split_data N [X, Y] = Inr (Many [pieces, outputs])
          \<and> merge_data pieces None = Inr (N, X', None)
          \<and> merge_data pieces (Some outputs) = Inr (N, X', Some Y)
          \<and> split_data N [X'] = Inr (One tagged)
          \<and> split_data N [X', Y] = Inr (Many [tagged, outputs])"
proof -
  let ?ps = "split_loop 0 N X" and ?os = "split_loop 0 N Y"
  let ?tg = "map2 prepend_channel [0..<length N] ?ps"
  let ?X' = "\<lparr>shape0 = sum_list N, shape1 = Suc (shape1 X), data = concat (map data ?tg)\<rparr>"
  have pX: "map shape0 ?ps = N" "\<forall>p \<in> set ?ps. wf_tensor p \<and> shape1 p = shape1 X"
    "concat (map data ?ps) = take (sum_list N) (drop 0 (data X))"
    using split_loop_pieces[OF assms(2), of 0 N] assms(3) by simp_all
  have pY: "map shape0 ?os = N" "\<forall>p \<in> set ?os. wf_tensor p \<and> shape1 p = shape1 Y"
    "concat (map data ?os) = take (sum_list N) (drop 0 (data Y))"
    using split_loop_pieces[OF assms(4), of 0 N] assms(5) by simp_all
  have lenp: "length ?ps = length N" "length ?os = length N"
    by (simp_all add: split_loop_length)
  have ne: "?ps \<noteq> []" using lenp(1) assms(1) by (metis length_0_conv)
  have dY: "concat (map data ?os) = data Y"
    using pY(3) assms(4,5) by (simp add: wf_tensor_def)
  have Yeq: "\<lparr>shape0 = sum_list N, shape1 = 1, data = concat (map data ?os)\<rparr> = Y"
    using dY assms(5,6) by (simp add: tensor.equality)
  have tgd: "concat (map data ?tg) = concat (map2 tag_rows [0..<length ?ps] ?ps)"
    using map2_prepend_props(2)[of "[0..<length N]" ?ps] lenp by (simp only:)
  have s1: "split_data N [X] = Inr (One ?ps)"
    using assms(3) by (simp add: split_data_def)
  have s2: "split_data N [X, Y] = Inr (Many [?ps, ?os])"
    using assms(3,5) by (simp add: split_data_def)
  have m1: "merge_data ?ps None = Inr (N, ?X', None)"
    using merge_data_pieces[OF ne pX(2)] pX(1) tgd by simp
  have outs: "\<forall>i < length ?ps. wf_tensor (?os ! i) \<and> shape1 (?os ! i) = 1
                \<and> shape0 (?os ! i) = shape0 (?ps ! i)"
  proof (intro allI impI)
    fix i assume i: "i < length ?ps"
    then have "?os ! i \<in> set ?os" using lenp by simp
    moreover have "shape0 (?os ! i) = N ! i" "shape0 (?ps ! i) = N ! i"
      using i lenp pX(1) pY(1) by (metis nth_map)+
    ultimately show "wf_tensor (?os ! i) \<and> shape1 (?os ! i) = 1 \<and> shape0 (?os ! i) = shape0 (?ps ! i)"
      using pY(2) assms(6) by simp
  qed
  have m2: "merge_data ?ps (Some ?os) = Inr (N, ?X', Some Y)"
    using merge_data_pieces_outputs[OF ne pX(2) _ outs] lenp pX(1) tgd Yeq by simp
  have tgs: "map shape0 ?tg = N"
    using map2_prepend_props(1)[of "[0..<length N]" ?ps] lenp pX(1) by simp
  have tgw: "\<forall>q \<in> set ?tg. wf_tensor q \<and> shape1 q = shape1 ?X'"
    using map2_prepend_wf[OF pX(2), of "[0..<length N]"] by simp
  have "split_loop 0 (map shape0 ?tg) ?X' = ?tg"
  proof (rule split_loop_concat[where A="[]" and R="[]"])
    show "data ?X' = [] @ concat (map data ?tg) @ []" by simp
    show "length ([]::mat) = 0" by simp
    show "\<forall>q \<in> set ?tg. wf_tensor q \<and> shape1 q = shape1 ?X'" by (rule tgw)
    have "length (concat (map data ?tg)) = sum_list (map shape0 ?tg)"
      using tgw by (intro length_concat_data) blast
    then show "shape0 ?X' = length (data ?X')" using tgs by simp
  qed
  then have sl: "split_loop 0 N ?X' = ?tg" using tgs by simp
  have s3: "split_data N [?X'] = Inr (One ?tg)"
    using sl by (simp add: split_data_def)
  have s4: "split_data N [?X', Y] = Inr (Many [?tg, ?os])"
    using sl assms(5) by (simp add: split_data_def)
  show ?thesis
    unfolding Let_def using s1 s2 m1 m2 s3 s4 by blast
qed


theorem merge_split_roundtrip_witness:
  "merge_data [\<lparr>shape0 = 2, shape1 = 1, data = [[4], [6]]\<rparr>, \<lparr>shape0 = 1, shape1 = 1, data = [[8]]\<rparr>]
      (Some [\<lparr>shape0 = 2, shape1 = 1, data = [[7], [9]]\<rparr>, \<lparr>shape0 = 1, shape1 = 1, data = [[5]]\<rparr>])
    = Inr ([2, 1], \<lparr>shape0 = 3, shape1 = 2, data = [[0, 4], [0, 6], [1, 8]]\<rparr>,
           Some \<lparr>shape0 = 3, shape1 = 1, data = [[7], [9], [5]]\<rparr>)
   \<and> split_data [2, 1] [\<lparr>shape0 = 3, shape1 = 2, data = [[0, 4], [0, 6], [1, 8]]\<rparr>,
                       \<lparr>shape0 = 3, shape1 = 1, data = [[7], [9], [5]]\<rparr>]
    = Inr (Many [[\<lparr>shape0 = 2, shape1 = 2, data = [[0, 4], [0, 6]]\<rparr>,
                  \<lparr>shape0 = 1, shape1 = 2, data = [[1, 8]]\<rparr>],
                 [\<lparr>shape0 = 2, shape1 = 1, data = [[7], [9]]\<rparr>,
                  \<lparr>shape0 = 1, shape1 = 1, data = [[5]]\<rparr>]])"
proof -
  let ?N = "[2, 1::nat]"
  let ?X = "\<lparr>shape0 = 3, shape1 = 1, data = [[4], [6], [8]]\<rparr>"
  let ?Y = "\<lparr>shape0 = 3, shape1 = 1, data = [[7], [9], [5]]\<rparr>"
  have h: "?N \<noteq> []" "wf_tensor ?X" "shape0 ?X = sum_list ?N"
    "wf_tensor ?Y" "shape0 ?Y = sum_list ?N" "shape1 ?Y = 1"
    by (simp_all add: wf_tensor_def)
  have px: "split_loop 0 ?N ?X
      = [\<lparr>shape0 = 2, shape1 = 1, data = [[4], [6]]\<rparr>, \<lparr>shape0 = 1, shape1 = 1, data = [[8]]\<rparr>]"
    by (simp add: slice_rows_def)
  have py: "split_loop 0 ?N ?Y
      = [\<lparr>shape0 = 2, shape1 = 1, data = [[7], [9]]\<rparr>, \<lparr>shape0 = 1, shape1 = 1, data = [[5]]\<rparr>]"
    by (simp add: slice_rows_def)
  have up: "[0..<length ?N] = [0, Suc 0]" by (simp add: upt_rec)
  from merge_split_roundtrip[OF h] show ?thesis
    unfolding Let_def px py up by (simp add: prepend_channel_def eval_nat_numeral)
qed

text \<open>
  The round trip is not the identity on the pieces: the piece \<open>[[0, 5]]\<close> of a stacked
  matrix (channel 0, payload 5) comes back as \<open>[[0, 0, 5]]\<close>.
\<close>

theorem merge_split_not_identity:
  "split_data [1] [\<lparr>shape0 = 1, shape1 = 2, data = [[0, 5]]\<rparr>]
     = Inr (One [\<lparr>shape0 = 1, shape1 = 2, data = [[0, 5]]\<rparr>])
   \<and> merge_data [\<lparr>shape0 = 1, shape1 = 2, data = [[0, 5]]\<rparr>] None
     = Inr ([1], \<lparr>shape0 = 1, shape1 = 3, data = [[0, 0, 5]]\<rparr>, None)
   \<and> split_data [1] [\<lparr>shape0 = 1, shape1 = 3, data = [[0, 0, 5]]\<rparr>]
     = Inr (One [\<lparr>shape0 = 1, shape1 = 3, data = [[0, 0, 5]]\<rparr>])
   \<and> [\<lparr>shape0 = 1, shape1 = 3, data = [[0, 0, 5]]\<rparr>] \<noteq> [\<lparr>shape0 = 1, shape1 = 2, data = [[0, 5 :: real]]\<rparr>]"
  by (simp add: split_data_def slice_rows_def merge_data_def zeros_def bind_err_def
      assign_cols_from_def assign_col0_def update_slice_def)

subsection \<open>Multi-output kernels\<close>

lemma ew_gram: "ew g (gram f X1 X2) = gram (\<lambda>x x'. g (f x x')) X1 X2"
  by (simp add: ew_def gram_def)

lemma ew3_gram: "ew3 g (gram f X1 X2) = gram (\<lambda>x x'. g (f x x')) X1 X2"
  by (simp add: ew3_def gram_def)

lemma tensordot_gram: "tensordot (gram f X1 X2) v = gram (\<lambda>x x'. dot (f x x') v) X1 X2"
  by (simp add: tensordot_def gram_def)

lemma ew2_gram:
  "ew2 h (gram f X1 X2) (gram g X1 X2) = gram (\<lambda>x x'. h (f x x') (g x x')) X1 X2"
  by (simp add: ew2_def gram_def map2_map_map)

lemma distance_gram: "distance X1 X2 = gram (map2 (-)) X1 (other X1 X2)"
  by (simp add: distance_def gram_def)

lemmas to_gram = ew_gram ew3_gram tensordot_gram ew2_gram distance_gram

lemma transpose_gram:
  "length X1 = n \<Longrightarrow> length X2 = m \<Longrightarrow>
   transpose_t \<lparr>shape0 = n, shape1 = m, data = gram f X1 X2\<rparr>
   = \<lparr>shape0 = m, shape1 = n, data = gram (\<lambda>x' x. f x x') X2 X1\<rparr>"
  by (auto simp: transpose_t_def gram_def intro!: nth_equalityI)

lemma diagonal_gram:
  "length X1 = n \<Longrightarrow>
   diagonal \<lparr>shape0 = n, shape1 = n, data = gram f X1 X1\<rparr> = map (\<lambda>x. f x x) X1"
  by (auto simp: diagonal_def gram_def intro!: nth_equalityI)

lemma gram_cong: "(\<And>x x'. f x x' = g x x') \<Longrightarrow> gram f X1 X2 = gram g X1 X2"
  by (simp add: gram_def)

lemma map2_swap: "map2 f xs ys = map2 (\<lambda>a b. f b a) ys xs"
  by (induction xs ys rule: list_induct2') auto

lemma map2_add_commute: "map2 (+) xs ys = map2 (+) ys (xs :: real list)"
  by (subst map2_swap) (simp add: add.commute)

lemma map2_mult_commute: "map2 (*) xs ys = map2 (*) ys (xs :: real list)"
  by (subst map2_swap) (simp add: mult.commute)

lemma map2_diff_swap: "map2 (-) ys xs = map uminus (map2 (-) xs (ys :: real list))"
  by (induction xs ys rule: list_induct2') auto

lemma map2_add_uminus:
  "map2 (+) (map uminus a) (map uminus b) = map uminus (map2 (+) a (b :: real list))"
  by (induction a b rule: list_induct2') auto

lemma dot_uminus: "dot (map uminus a) m = - dot a m"
  by (induction a m rule: list_induct2') (auto simp: dot_def)

lemma sq_uminus: "map (\<lambda>t. t\<^sup>2) (map uminus a) = map (\<lambda>t. t\<^sup>2) (a :: real list)"
  by (induction a) auto

lemma dot_scaled_uminus:
  "dot (map uminus d) (map2 (*) w (map uminus d)) = dot d (map2 (*) w d)"
proof -
  have "length d = n \<Longrightarrow> dot (map uminus d) (map2 (*) w (map uminus d)) = dot d (map2 (*) w d)" for n
    by (induction d w arbitrary: n rule: list_induct2') (auto simp: dot_def)
  then show ?thesis by simp
qed

lemma cross_variance_sym:
  "map2 (*) (map2 (*) (map ((*) 2) vi) (map (\<lambda>v. 1 / v) (map2 (+) vi vj))) vj
   = map2 (*) (map2 (*) (map ((*) 2) vj) (map (\<lambda>v. 1 / v) (map2 (+) vj vi))) (vi :: real list)"
  by (induction vi vj rule: list_induct2') (auto simp: add.commute)

lemma cross_mean_sym:
  "map2 (*) (map (\<lambda>v. 1 / v) (map2 (+) vi vj)) (map2 (+) (map2 (*) vi mj) (map2 (*) vj mi))
   = map2 (*) (map (\<lambda>v. 1 / v) (map2 (+) vj vi)) (map2 (+) (map2 (*) vj mi) (map2 (*) vi (mj :: real list)))"
  by (simp add: map2_add_commute[of vi vj] map2_add_commute[of "map2 (*) vi mj"])

lemma other_Some [simp]: "other X1 (Some X2) = X2"
  by (simp add: other_def)

lemma length_active_input [simp]: "length (active_input ds X) = length X"
  by (simp add: active_input_def split: option.splits)

lemma cos_two_pi_neg: "cos (2 * pi * (- a + - b)) = cos (2 * pi * (a + b))"
proof -
  have "2 * pi * (- a + - b) = - (2 * pi * (a + b))" by (simp add: algebra_simps)
  then show ?thesis by (simp only: cos_minus)
qed

lemma sq_dist_sym:
  "map (\<lambda>t. t\<^sup>2) (map2 (-) x' x) = map (\<lambda>t. t\<^sup>2) (map2 (-) x (x' :: real list))"
  by (simp only: map2_diff_swap[of x x'] sq_uminus)

lemma dot_dist_neg: "dot (map2 (-) x' x) m = - dot (map2 (-) x x') m"
  by (simp only: map2_diff_swap[of x x'] dot_uminus)

lemma MOSM_Ksub_same:
  "i < output_dims k \<Longrightarrow>
   MOSM_Ksub k i i X1 X2 =
     Inr (block (active_input (active_dims k) X1) (map_option (active_input (active_dims k)) X2)
       (gram (mosm_same k i) (active_input (active_dims k) X1)
          (other (active_input (active_dims k) X1) (map_option (active_input (active_dims k)) X2))))"
  by (simp add: MOSM_Ksub_def Let_def to_gram mosm_same_def[abs_def])

lemma MOSM_Ksub_cross:
  "i < output_dims k \<Longrightarrow> j < output_dims k \<Longrightarrow> i \<noteq> j \<Longrightarrow>
   MOSM_Ksub k i j X1 X2 =
     Inr (block (active_input (active_dims k) X1) (map_option (active_input (active_dims k)) X2)
       (gram (mosm_cross k i j) (active_input (active_dims k) X1)
          (other (active_input (active_dims k) X1) (map_option (active_input (active_dims k)) X2))))"
  by (simp add: MOSM_Ksub_def Let_def to_gram mosm_cross_def[abs_def] cross_inv_def cross_mean_def
      cross_variance_def cross_attenuation_def)

lemma cross_inv_sym: "cross_inv vi vj = cross_inv vj vi"
  by (simp only: cross_inv_def map2_add_commute[of vi vj])

lemma cross_mean_sym': "cross_mean vi vj mi mj = cross_mean vj vi mj mi"
  unfolding cross_mean_def cross_inv_def using cross_mean_sym[of vi vj mj mi] by simp

lemma cross_variance_sym': "cross_variance vi vj = cross_variance vj vi"
  unfolding cross_variance_def cross_inv_def using cross_variance_sym[of vi vj] by simp

lemma cross_attenuation_sym: "cross_attenuation vi vj mi mj = cross_attenuation vj vi mj mi"
proof -
  have "dot (map2 (-) mj mi) (map2 (*) (cross_inv vj vi) (map2 (-) mj mi))
      = dot (map2 (-) mi mj) (map2 (*) (cross_inv vi vj) (map2 (-) mi mj))"
    by (simp only: map2_diff_swap[of mi mj] dot_scaled_uminus cross_inv_sym[of vj vi])
  then show ?thesis by (simp only: cross_attenuation_def)
qed

lemma shifted_dist_neg:
  "map2 (+) (map2 (-) x' x) (map2 (-) dj di)
   = map uminus (map2 (+) (map2 (-) x (x' :: real list)) (map2 (-) di (dj :: real list)))"
  by (simp only: map2_diff_swap[of x' x] map2_diff_swap[of dj di] map2_add_uminus)

lemma mosm_same_sym: "mosm_same k i x x' = mosm_same k i x' x"
proof -
  have "cos (2.0 * pi * dot (map2 (-) x x') m) = cos (2.0 * pi * dot (map2 (-) x' x) m)" for m
    by (simp only: dot_dist_neg[of x x'] mult_minus_right cos_minus)
  then show ?thesis
    by (simp only: mosm_same_def sq_dist_sym[of x x'])
qed

lemma cos_phase_sym: "cos (2.0 * pi * (- a + (q - p))) = cos (2.0 * pi * (a + (p - q)))"
proof -
  have "2.0 * pi * (- a + (q - p)) = - (2.0 * pi * (a + (p - q)))" by (simp add: algebra_simps)
  then show ?thesis by (simp only: cos_minus)
qed

lemma mosm_cross_sym: "mosm_cross k i j x x' = mosm_cross k j i x' x"
  by (simp only: mosm_cross_def Let_def shifted_dist_neg[of x x'] sq_uminus dot_uminus
      cos_phase_sym cross_variance_sym'[of "mosm_variance k ! j"]
      cross_mean_sym'[of "mosm_variance k ! j"] cross_attenuation_sym[of "mosm_variance k ! j"]
      mult.commute[of "mosm_magnitude k ! j"])

lemma MOSM_Ksub_symmetric:
  "map_sum id transpose_t (MOSM_Ksub k i j X1 (Some X2)) = MOSM_Ksub k j i X2 (Some X1)"
proof (cases "i < output_dims k \<and> j < output_dims k")
  case False
  then show ?thesis by (auto simp: MOSM_Ksub_def)
next
  case inr: True
  show ?thesis
  proof (cases "i = j")
    case True
    have "(\<lambda>x' x. mosm_same k j x x') = mosm_same k j"
      by (intro ext) (rule mosm_same_sym)
    then show ?thesis
      using inr True by (simp add: MOSM_Ksub_same block_def transpose_gram)
  next
    case False
    have "(\<lambda>x' x. mosm_cross k i j x x') = mosm_cross k j i"
      by (intro ext) (rule mosm_cross_sym)
    then show ?thesis
      using inr False by (simp add: MOSM_Ksub_cross block_def transpose_gram)
  qed
qed

lemma dot_self_diff: "dot (map2 (-) x x) m = 0"
  by (induction x m rule: list_induct2') (auto simp: dot_def)

lemma dot_sq_self_diff: "dot (map (\<lambda>t. t\<^sup>2) (map2 (-) x x)) m = 0"
  by (induction x m rule: list_induct2') (auto simp: dot_def)

lemma mosm_same_diag:
  "mosm_same k i x x = (mosm_magnitude k ! i)\<^sup>2 * mosm_twopi k * sqrt (prod_list (mosm_variance k ! i))"
  unfolding mosm_same_def dot_self_diff dot_sq_self_diff by simp

lemma MOSM_Ksub_diag_consistent:
  "MOSM_Ksub_diag k i X1 = map_sum id diagonal (MOSM_Ksub k i i X1 (Some X1))"
proof (cases "i < output_dims k")
  case False
  then show ?thesis by (simp add: MOSM_Ksub_def MOSM_Ksub_diag_def)
next
  case True
  then show ?thesis
    by (simp add: MOSM_Ksub_same MOSM_Ksub_diag_def block_def diagonal_gram mosm_same_diag
        map_replicate_const)
qed

lemma map2_gram:
  "map2 (map2 h) (gram f X1 X2) (gram g X1 X2) = gram (\<lambda>x x'. h (f x x') (g x x')) X1 X2"
  by (simp add: gram_def map2_map_map)

lemma map_map_gram: "map (map g) (gram f X1 X2) = gram (\<lambda>x x'. g (f x x')) X1 X2"
  by (simp add: gram_def)

lemma squared_distance_gram:
  "squared_distance X1 X2 = gram (map2 (\<lambda>a b. (a - b)\<^sup>2)) X1 (other X1 X2)"
  by (simp add: squared_distance_def gram_def)

lemma average_gram: "average X1 X2 = gram (map2 (\<lambda>a b. (a + b) / 2)) X1 (other X1 X2)"
  by (simp add: average_def gram_def)

lemmas to_gram2 = to_gram map2_gram map_map_gram squared_distance_gram average_gram

lemma uMOSM_Ksub_same:
  "i < output_dims k \<Longrightarrow>
   uMOSM_Ksub k i i X1 X2 =
     Inr (block (active_input (active_dims k) X1) (map_option (active_input (active_dims k)) X2)
       (gram (umosm_same k i) (active_input (active_dims k) X1)
          (other (active_input (active_dims k) X1) (map_option (active_input (active_dims k)) X2))))"
  by (simp add: uMOSM_Ksub_def Let_def to_gram umosm_same_def[abs_def])

lemma uMOSM_Ksub_cross:
  "i < output_dims k \<Longrightarrow> j < output_dims k \<Longrightarrow> i \<noteq> j \<Longrightarrow>
   uMOSM_Ksub k i j X1 X2 =
     Inr (block (active_input (active_dims k) X1) (map_option (active_input (active_dims k)) X2)
       (gram (umosm_cross k i j) (active_input (active_dims k) X1)
          (other (active_input (active_dims k) X1) (map_option (active_input (active_dims k)) X2))))"
  by (simp add: uMOSM_Ksub_def Let_def to_gram umosm_cross_def[abs_def] cross_inv_def cross_mean_def
      cross_variance_def cross_attenuation_def)

lemma dot_commute: "dot u v = dot v u"
  unfolding dot_def by (subst map2_mult_commute) simp

lemma length_tril [simp]: "length (tril M) = length M"
  by (simp add: tril_def)

lemma mm_T_nth: "i < length A \<Longrightarrow> j < length B \<Longrightarrow> mm_T A B ! i ! j = dot (A ! i) (B ! j)"
  by (simp add: mm_T_def)

lemma magnitude_sym:
  "i < length M \<Longrightarrow> j < length M \<Longrightarrow>
   mm_T (tril M) (tril M) ! i ! j = mm_T (tril M) (tril M) ! j ! i"
  by (simp add: mm_T_nth dot_commute[of "tril M ! i"])

lemma umosm_same_sym: "umosm_same k i x x' = umosm_same k i x' x"
proof -
  have "cos (2.0 * pi * dot (map2 (-) x x') m) = cos (2.0 * pi * dot (map2 (-) x' x) m)" for m
    by (simp only: dot_dist_neg[of x x'] mult_minus_right cos_minus)
  then show ?thesis
    by (simp only: umosm_same_def sq_dist_sym[of x x'])
qed

lemma cos_phase_outside_sym: "cos (2.0 * pi * (- a) + (q - p)) = cos (2.0 * pi * a + (p - q))"
proof -
  have "2.0 * pi * (- a) + (q - p) = - (2.0 * pi * a + (p - q))" by (simp add: algebra_simps)
  then show ?thesis by (simp only: cos_minus)
qed

lemma umosm_cross_sym:
  assumes "i < length (umosm_magnitude k)" "j < length (umosm_magnitude k)"
  shows "umosm_cross k i j x x' = umosm_cross k j i x' x"
  by (simp only: umosm_cross_def Let_def shifted_dist_neg[of x x'] sq_uminus dot_uminus
      cos_phase_outside_sym cross_variance_sym'[of "umosm_variance k ! j"]
      cross_mean_sym'[of "umosm_variance k ! j"] cross_attenuation_sym[of "umosm_variance k ! j"]
      magnitude_sym[OF assms(2) assms(1)])

lemma uMOSM_Ksub_symmetric:
  assumes "length (umosm_magnitude k) = output_dims k"
  shows "map_sum id transpose_t (uMOSM_Ksub k i j X1 (Some X2)) = uMOSM_Ksub k j i X2 (Some X1)"
proof (cases "i < output_dims k \<and> j < output_dims k")
  case False
  then show ?thesis by (auto simp: uMOSM_Ksub_def)
next
  case inr: True
  show ?thesis
  proof (cases "i = j")
    case True
    have "(\<lambda>x' x. umosm_same k j x x') = umosm_same k j"
      by (intro ext) (rule umosm_same_sym)
    then show ?thesis
      using inr True by (simp add: uMOSM_Ksub_same block_def transpose_gram)
  next
    case False
    have "(\<lambda>x' x. umosm_cross k i j x x') = umosm_cross k j i"
      using inr assms by (intro ext) (simp add: umosm_cross_sym)
    then show ?thesis
      using inr False by (simp add: uMOSM_Ksub_cross block_def transpose_gram)
  qed
qed

lemma umosm_same_diag:
  "umosm_same k i x x = mm_T (tril (umosm_magnitude k)) (tril (umosm_magnitude k)) ! i ! i
     * mosm_twopi k * sqrt (prod_list (umosm_variance k ! i))"
  unfolding umosm_same_def dot_self_diff dot_sq_self_diff by simp

lemma uMOSM_Ksub_diag_consistent:
  "uMOSM_Ksub_diag k i X1 = map_sum id diagonal (uMOSM_Ksub k i i X1 (Some X1))"
proof (cases "i < output_dims k")
  case False
  then show ?thesis by (simp add: uMOSM_Ksub_def uMOSM_Ksub_diag_def)
next
  case True
  then show ?thesis
    by (simp add: uMOSM_Ksub_same uMOSM_Ksub_diag_def block_def diagonal_gram umosm_same_diag
        map_replicate_const)
qed

lemma CSM_Ksub_same:
  "i < output_dims k \<Longrightarrow>
   CSM_Ksub k i i X1 X2 =
     Inr (block (active_input (active_dims k) X1) (map_option (active_input (active_dims k)) X2)
       (gram (csm_same k i) (active_input (active_dims k) X1)
          (other (active_input (active_dims k) X1) (map_option (active_input (active_dims k)) X2))))"
  by (simp add: CSM_Ksub_def Let_def to_gram2 csm_same_def[abs_def])

lemma CSM_Ksub_cross:
  "i < output_dims k \<Longrightarrow> j < output_dims k \<Longrightarrow> i \<noteq> j \<Longrightarrow>
   CSM_Ksub k i j X1 X2 =
     Inr (block (active_input (active_dims k) X1) (map_option (active_input (active_dims k)) X2)
       (gram (csm_cross k i j) (active_input (active_dims k) X1)
          (other (active_input (active_dims k) X1) (map_option (active_input (active_dims k)) X2))))"
  by (simp add: CSM_Ksub_def Let_def to_gram2 csm_cross_def[abs_def])

lemma csm_same_sym: "csm_same k i x x' = csm_same k i x' x"
proof -
  have "cos (2.0 * pi * dot (map2 (-) x x') m) = cos (2.0 * pi * dot (map2 (-) x' x) m)" for m
    by (simp only: dot_dist_neg[of x x'] mult_minus_right cos_minus)
  then show ?thesis
    by (simp only: csm_same_def sq_dist_sym[of x x'])
qed

lemma csm_cos_sym:
  "map (\<lambda>s. cos (2.0 * pi * (dot (map2 (-) x' x) m + s))) (map2 (-) sj si)
   = map (\<lambda>s. cos (2.0 * pi * (dot (map2 (-) x x') m + s))) (map2 (-) si sj)"
proof -
  have pt: "cos (2.0 * pi * (- d + - s)) = cos (2.0 * pi * (d + s))" for d s :: real
  proof -
    have "2.0 * pi * (- d + - s) = - (2.0 * pi * (d + s))" by (simp add: algebra_simps)
    then show ?thesis by (simp only: cos_minus)
  qed
  have "map (\<lambda>s. cos (2.0 * pi * (- d + s))) (map uminus S) = map (\<lambda>s. cos (2.0 * pi * (d + s))) S"
    for d :: real and S
    by (simp only: map_map o_def pt)
  then show ?thesis
    by (simp only: dot_dist_neg[of x' x] map2_diff_swap[of sj si])
qed

lemma csm_cross_sym: "csm_cross k i j x x' = csm_cross k j i x' x"
  by (simp only: csm_cross_def csm_cos_sym[of x x'] sq_dist_sym[of x x']
      map2_mult_commute[of "csm_amplitude k ! j"])

lemma CSM_Ksub_symmetric:
  "map_sum id transpose_t (CSM_Ksub k i j X1 (Some X2)) = CSM_Ksub k j i X2 (Some X1)"
proof (cases "i < output_dims k \<and> j < output_dims k")
  case False
  then show ?thesis by (auto simp: CSM_Ksub_def)
next
  case inr: True
  show ?thesis
  proof (cases "i = j")
    case True
    have "(\<lambda>x' x. csm_same k j x x') = csm_same k j"
      by (intro ext) (rule csm_same_sym)
    then show ?thesis
      using inr True by (simp add: CSM_Ksub_same block_def transpose_gram)
  next
    case False
    have "(\<lambda>x' x. csm_cross k i j x x') = csm_cross k j i"
      by (intro ext) (rule csm_cross_sym)
    then show ?thesis
      using inr False by (simp add: CSM_Ksub_cross block_def transpose_gram)
  qed
qed

lemma csm_same_diag: "csm_same k i x x = sum_list (csm_amplitude k ! i)"
  unfolding csm_same_def dot_self_diff dot_sq_self_diff by simp

lemma CSM_Ksub_diag_consistent:
  "CSM_Ksub_diag k i X1 = map_sum id diagonal (CSM_Ksub k i i X1 (Some X1))"
proof (cases "i < output_dims k")
  case False
  then show ?thesis by (simp add: CSM_Ksub_def CSM_Ksub_diag_def)
next
  case True
  then show ?thesis
    by (simp add: CSM_Ksub_same CSM_Ksub_diag_def block_def diagonal_gram csm_same_diag
        map_replicate_const)
qed

lemma CONV_Ksub_cross:
  "i < output_dims k \<Longrightarrow> j < output_dims k \<Longrightarrow>
   CONV_Ksub k i j X1 (Some X2) =
     Inr (block (active_input (active_dims k) X1) (Some (active_input (active_dims k) X2))
       (gram (conv_cross k i j) (active_input (active_dims k) X1) (active_input (active_dims k) X2)))"
  by (simp add: CONV_Ksub_def Let_def to_gram2 conv_cross_def[abs_def])

lemma sq_map2_sym: "map2 (\<lambda>a b. (a - b)\<^sup>2) x' x = map2 (\<lambda>a b. (a - b)\<^sup>2) x (x' :: real list)"
  by (induction x x' rule: list_induct2') (auto simp: power2_commute)

lemma conv_cross_sym: "conv_cross k i j x x' = conv_cross k j i x' x"
  by (simp only: conv_cross_def Let_def sq_map2_sym[of x x']
      map2_add_commute[of "conv_variance k ! j"] mult.commute[of "conv_weight k ! j"])

lemma CONV_Ksub_symmetric:
  "map_sum id transpose_t (CONV_Ksub k i j X1 (Some X2)) = CONV_Ksub k j i X2 (Some X1)"
proof (cases "i < output_dims k \<and> j < output_dims k")
  case False
  then show ?thesis by (auto simp: CONV_Ksub_def)
next
  case inr: True
  have "(\<lambda>x' x. conv_cross k i j x x') = conv_cross k j i"
    by (intro ext) (rule conv_cross_sym)
  then show ?thesis
    using inr by (simp add: CONV_Ksub_cross block_def transpose_gram)
qed

lemma map2_add_self: "map2 (+) v v = map ((*) 2) (v :: real list)"
  by (induction v) auto

lemma dot_sq_map2_self: "dot (map2 (\<lambda>a b. (a - b)\<^sup>2) x x) m = 0"
  by (induction x m rule: list_induct2') (auto simp: dot_def)

lemma conv_cross_diag:
  "conv_cross k i i x x =
     (conv_weight k ! i)\<^sup>2
     * sqrt (prod_list (conv_base_variance k)
         / prod_list (map2 (+) (map ((*) 2.0) (conv_variance k ! i)) (conv_base_variance k)))"
  unfolding conv_cross_def Let_def dot_sq_map2_self map2_add_self by (simp add: power2_eq_square)

lemma CONV_Ksub_diag_consistent:
  "CONV_Ksub_diag k i X1 = map_sum id diagonal (CONV_Ksub k i i X1 (Some X1))"
proof (cases "i < output_dims k")
  case False
  then show ?thesis by (simp add: CONV_Ksub_def CONV_Ksub_diag_def)
next
  case True
  then show ?thesis
    by (simp add: CONV_Ksub_cross CONV_Ksub_diag_def block_def diagonal_gram conv_cross_diag
        map_replicate_const)
qed

lemma MOHSM_Ksub_same:
  "i < output_dims k \<Longrightarrow>
   MOHSM_Ksub k i i X1 X2 =
     Inr (block (active_input (active_dims k) X1) (map_option (active_input (active_dims k)) X2)
       (gram (mohsm_same k i) (active_input (active_dims k) X1)
          (other (active_input (active_dims k) X1) (map_option (active_input (active_dims k)) X2))))"
  by (simp add: MOHSM_Ksub_def Let_def to_gram2 mohsm_same_def[abs_def] envelope_def)

lemma MOHSM_Ksub_cross:
  "i < output_dims k \<Longrightarrow> j < output_dims k \<Longrightarrow> i \<noteq> j \<Longrightarrow>
   MOHSM_Ksub k i j X1 X2 =
     Inr (block (active_input (active_dims k) X1) (map_option (active_input (active_dims k)) X2)
       (gram (mohsm_cross k i j) (active_input (active_dims k) X1)
          (other (active_input (active_dims k) X1) (map_option (active_input (active_dims k)) X2))))"
  by (simp add: MOHSM_Ksub_def Let_def to_gram2 mohsm_cross_def[abs_def] cross_inv_def cross_mean_def
      cross_variance_def cross_attenuation_def envelope_def cross_lengthscale_def)

lemma average_sym:
  "map2 (\<lambda>a b. (a + b) / 2) x' x = map2 (\<lambda>a b. (a + b) / 2) x (x' :: real list)"
  by (induction x x' rule: list_induct2') (auto simp: add.commute)

lemma cross_lengthscale_sym: "cross_lengthscale li lj = cross_lengthscale lj li"
  by (simp add: cross_lengthscale_def add.commute)

lemma mohsm_same_sym: "mohsm_same k i x x' = mohsm_same k i x' x"
proof -
  have "cos (2.0 * pi * dot (map2 (-) x x') m) = cos (2.0 * pi * dot (map2 (-) x' x) m)" for m
    by (simp only: dot_dist_neg[of x x'] mult_minus_right cos_minus)
  then show ?thesis
    by (simp only: mohsm_same_def sq_dist_sym[of x x'] average_sym[of x x'])
qed

lemma mohsm_cross_sym: "mohsm_cross k i j x x' = mohsm_cross k j i x' x"
  by (simp only: mohsm_cross_def Let_def shifted_dist_neg[of x x'] sq_uminus dot_uminus
      cos_phase_outside_sym cross_variance_sym'[of "mohsm_variance k ! j"]
      cross_mean_sym'[of "mohsm_variance k ! j"] cross_attenuation_sym[of "mohsm_variance k ! j"]
      cross_lengthscale_sym[of "mohsm_lengthscale k ! j"] average_sym[of x x']
      mult.commute[of "mohsm_magnitude k ! j"])

lemma MOHSM_Ksub_symmetric:
  "map_sum id transpose_t (MOHSM_Ksub k i j X1 (Some X2)) = MOHSM_Ksub k j i X2 (Some X1)"
proof (cases "i < output_dims k \<and> j < output_dims k")
  case False
  then show ?thesis by (auto simp: MOHSM_Ksub_def)
next
  case inr: True
  show ?thesis
  proof (cases "i = j")
    case True
    have "(\<lambda>x' x. mohsm_same k j x x') = mohsm_same k j"
      by (intro ext) (rule mohsm_same_sym)
    then show ?thesis
      using inr True by (simp add: MOHSM_Ksub_same block_def transpose_gram)
  next
    case False
    have "(\<lambda>x' x. mohsm_cross k i j x x') = mohsm_cross k j i"
      by (intro ext) (rule mohsm_cross_sym)
    then show ?thesis
      using inr False by (simp add: MOHSM_Ksub_cross block_def transpose_gram)
  qed
qed

lemma average_self: "map2 (\<lambda>a b. (a + b) / 2) x x = (x :: real list)"
  by (induction x) auto

lemma mohsm_same_diag:
  "mohsm_same k i x x =
     (mohsm_magnitude k ! i)\<^sup>2 * mohsm_twopi k * sqrt (prod_list (mohsm_variance k ! i))
     * sqrt ((mohsm_lengthscale k ! i)\<^sup>2) ^ input_dims k
     * envelope ((mohsm_lengthscale k ! i)\<^sup>2) (input_dims k) (mohsm_center k) x"
  unfolding mohsm_same_def dot_self_diff dot_sq_self_diff average_self by simp

lemma MOHSM_Ksub_diag_consistent:
  "MOHSM_Ksub_diag k i X1 = map_sum id diagonal (MOHSM_Ksub k i i X1 (Some X1))"
proof (cases "i < output_dims k")
  case False
  then show ?thesis by (simp add: MOHSM_Ksub_def MOHSM_Ksub_diag_def)
next
  case True
  then show ?thesis
    by (simp add: MOHSM_Ksub_same MOHSM_Ksub_diag_def block_def diagonal_gram mohsm_same_diag
        envelope_def Let_def o_def)
qed

lemma transpose_zeros: "transpose_t (zeros n m) = zeros m n"
  by (auto simp: transpose_t_def zeros_def intro!: nth_equalityI)

lemma IMO_Ksub_symmetric:
  assumes "\<forall>ker \<in> set (imo_kernels k). Kernel_symmetric ker"
  shows "map_sum id transpose_t (IMO_Ksub k i j X1 (Some X2)) = IMO_Ksub k j i X2 (Some X1)"
proof (cases "i = j")
  case False
  then show ?thesis by (auto simp: IMO_Ksub_def Let_def transpose_zeros)
next
  case True
  show ?thesis
  proof (cases "i < length (imo_kernels k)")
    case False
    then show ?thesis using True by (simp add: IMO_Ksub_def)
  next
    case inr: True
    then have "Kernel_symmetric (imo_kernels k ! i)" using assms by simp
    then show ?thesis using True inr by (simp add: IMO_Ksub_def Kernel_symmetric_def)
  qed
qed

lemma IMO_Ksub_diag_consistent:
  assumes "\<forall>ker \<in> set (imo_kernels k). Kernel_diagonal ker"
  shows "IMO_Ksub_diag k i X1 = map_sum id diagonal (IMO_Ksub k i i X1 (Some X1))"
proof (cases "i < length (imo_kernels k)")
  case False
  then show ?thesis by (simp add: IMO_Ksub_def IMO_Ksub_diag_def)
next
  case True
  then have "Kernel_diagonal (imo_kernels k ! i)" using assms by simp
  then show ?thesis using True by (simp add: IMO_Ksub_def IMO_Ksub_diag_def Kernel_diagonal_def Let_def)
qed

lemma stack2_shaped:
  assumes "Ts \<noteq> []" "\<forall>T \<in> set Ts. shape0 T = n \<and> shape1 T = m"
  shows "stack2 Ts = Inr (map (\<lambda>a. map (\<lambda>b. map (\<lambda>T. data T ! a ! b) Ts) [0..<m]) [0..<n], n, m)"
proof -
  obtain T0 rest where Ts: "Ts = T0 # rest" using assms(1) by (cases Ts) auto
  have "list_all (\<lambda>T. shape0 T = shape0 T0 \<and> shape1 T = shape1 T0) Ts"
    using assms(2) Ts by (simp add: list_all_iff)
  moreover have "shape0 T0 = n" "shape1 T0 = m" using assms(2) Ts by simp_all
  ultimately show ?thesis unfolding stack2_def Ts by simp
qed

lemma stack1_shaped:
  assumes "ds \<noteq> []" "\<forall>d \<in> set ds. length d = n"
  shows "stack1 ds = Inr (map (\<lambda>a. map (\<lambda>d. d ! a) ds) [0..<n])"
proof -
  obtain d0 rest where ds: "ds = d0 # rest" using assms(1) by (cases ds) auto
  have "list_all (\<lambda>d. length d = length d0) ds"
    using assms(2) ds by (simp add: list_all_iff)
  moreover have "length d0 = n" using assms(2) ds by simp
  ultimately show ?thesis unfolding stack1_def ds by simp
qed

lemma lmc_weight_sym:
  "map2 (\<lambda>wi wj. sum_list (map2 (*) wi wj)) Wj Wi
   = map2 (\<lambda>wi wj. sum_list (map2 (*) wi wj)) Wi (Wj :: real list list)"
  by (induction Wi Wj rule: list_induct2') (auto simp: map2_mult_commute)

lemma lmc_weight_self:
  "map2 (\<lambda>wi wj. sum_list (map2 (*) wi wj)) W W
   = map (\<lambda>wi. sum_list (map (\<lambda>w. w\<^sup>2) wi)) (W :: real list list)"
proof -
  have "map2 (*) w w = map (\<lambda>w. w\<^sup>2) w" for w :: "real list"
    by (induction w) (auto simp: power2_eq_square)
  then show ?thesis by (induction W) auto
qed

lemma tensordot_nth:
  "a < n \<Longrightarrow> b < m \<Longrightarrow>
   tensordot (map (\<lambda>a. map (\<lambda>b. f a b) [0..<m]) [0..<n]) w ! a ! b = dot (f a b) w"
  by (simp add: tensordot_def)

lemma LMC_Ksub_symmetric:
  assumes "\<forall>ker \<in> set (lmc_kernels k). Kernel_symmetric ker"
  shows "map_sum id transpose_t (LMC_Ksub k i j X1 (Some X2)) = LMC_Ksub k j i X2 (Some X1)"
proof (cases "i < output_dims k \<and> j < output_dims k")
  case False
  then show ?thesis by (auto simp: LMC_Ksub_def)
next
  case inr: True
  let ?A1 = "active_input (active_dims k) X1" and ?A2 = "active_input (active_dims k) X2"
  let ?Ks = "map (\<lambda>ker. K ker ?A1 (Some ?A2)) (lmc_kernels k)"
  let ?Ks' = "map (\<lambda>ker. K ker ?A2 (Some ?A1)) (lmc_kernels k)"
  let ?w = "map2 (\<lambda>wi wj. sum_list (map2 (*) wi wj)) (lmc_weight k ! i) (lmc_weight k ! j)"
  let ?w' = "map2 (\<lambda>wi wj. sum_list (map2 (*) wi wj)) (lmc_weight k ! j) (lmc_weight k ! i)"
  let ?n = "length X1" and ?m = "length X2"
  show ?thesis
  proof (cases "lmc_kernels k = []")
    case True
    then show ?thesis using inr by (simp add: LMC_Ksub_def stack2_def bind_err_def)
  next
    case False
    have sh: "\<forall>T \<in> set ?Ks. shape0 T = ?n \<and> shape1 T = ?m"
      using assms by (auto simp: Kernel_symmetric_def)
    have sh': "\<forall>T \<in> set ?Ks'. shape0 T = ?m \<and> shape1 T = ?n"
      using assms by (auto simp: Kernel_symmetric_def)
    have tr: "?Ks' = map transpose_t ?Ks"
      using assms by (auto simp: Kernel_symmetric_def)
    have st: "stack2 ?Ks = Inr (map (\<lambda>a. map (\<lambda>b. map (\<lambda>T. data T ! a ! b) ?Ks) [0..<?m]) [0..<?n], ?n, ?m)"
      using False by (intro stack2_shaped sh) simp
    have st': "stack2 ?Ks' = Inr (map (\<lambda>b. map (\<lambda>a. map (\<lambda>T. data T ! b ! a) ?Ks') [0..<?n]) [0..<?m], ?m, ?n)"
      using False by (intro stack2_shaped sh') simp
    have entry: "map (\<lambda>ker. data (K ker ?A2 (Some ?A1)) ! b ! a) (lmc_kernels k)
        = map (\<lambda>ker. data (K ker ?A1 (Some ?A2)) ! a ! b) (lmc_kernels k)"
      if "a < ?n" "b < ?m" for a b
    proof (rule map_cong[OF refl])
      fix ker assume "ker \<in> set (lmc_kernels k)"
      then have ks: "Kernel_symmetric ker" using assms by simp
      then have "K ker ?A2 (Some ?A1) = transpose_t (K ker ?A1 (Some ?A2))"
        by (simp add: Kernel_symmetric_def)
      moreover have "shape0 (K ker ?A1 (Some ?A2)) = ?n" "shape1 (K ker ?A1 (Some ?A2)) = ?m"
        using ks by (simp_all add: Kernel_symmetric_def)
      ultimately show "data (K ker ?A2 (Some ?A1)) ! b ! a = data (K ker ?A1 (Some ?A2)) ! a ! b"
        using that by (simp add: transpose_t_def)
    qed
    have L: "LMC_Ksub k i j X1 (Some X2)
        = Inr \<lparr>shape0 = ?n, shape1 = ?m,
               data = tensordot (map (\<lambda>a. map (\<lambda>b. map (\<lambda>T. data T ! a ! b) ?Ks) [0..<?m]) [0..<?n]) ?w\<rparr>"
      using inr st by (simp add: LMC_Ksub_def Let_def bind_err_def)
    have R: "LMC_Ksub k j i X2 (Some X1)
        = Inr \<lparr>shape0 = ?m, shape1 = ?n,
               data = tensordot (map (\<lambda>b. map (\<lambda>a. map (\<lambda>T. data T ! b ! a) ?Ks') [0..<?n]) [0..<?m]) ?w'\<rparr>"
      using inr st' by (simp add: LMC_Ksub_def Let_def bind_err_def)
    have w: "?w' = ?w" by (rule lmc_weight_sym)
    have "map (\<lambda>b. map (\<lambda>a. tensordot (map (\<lambda>a. map (\<lambda>b. map (\<lambda>T. data T ! a ! b) ?Ks) [0..<?m]) [0..<?n]) ?w ! a ! b) [0..<?n]) [0..<?m]
        = tensordot (map (\<lambda>b. map (\<lambda>a. map (\<lambda>T. data T ! b ! a) ?Ks') [0..<?n]) [0..<?m]) ?w'"
      unfolding w by (auto simp: tensordot_def o_def entry intro!: nth_equalityI)
    then show ?thesis
      unfolding L R by (simp add: transpose_t_def)
  qed
qed

lemma LMC_Ksub_diag_consistent:
  assumes "\<forall>ker \<in> set (lmc_kernels k). Kernel_diagonal ker"
  shows "LMC_Ksub_diag k i X1 = map_sum id diagonal (LMC_Ksub k i i X1 (Some X1))"
proof (cases "i < output_dims k")
  case False
  then show ?thesis by (auto simp: LMC_Ksub_def LMC_Ksub_diag_def)
next
  case inr: True
  let ?A = "active_input (active_dims k) X1"
  let ?Ks = "map (\<lambda>ker. K ker ?A (Some ?A)) (lmc_kernels k)"
  let ?ds = "map (\<lambda>ker. K_diag ker ?A) (lmc_kernels k)"
  let ?w = "map2 (\<lambda>wi wj. sum_list (map2 (*) wi wj)) (lmc_weight k ! i) (lmc_weight k ! i)"
  let ?w2 = "map (\<lambda>wi. sum_list (map (\<lambda>w. w\<^sup>2) wi)) (lmc_weight k ! i)"
  let ?n = "length X1"
  show ?thesis
  proof (cases "lmc_kernels k = []")
    case True
    then show ?thesis using inr by (simp add: LMC_Ksub_def LMC_Ksub_diag_def stack2_def stack1_def bind_err_def)
  next
    case False
    have sh: "\<forall>T \<in> set ?Ks. shape0 T = ?n \<and> shape1 T = ?n"
      using assms by (auto simp: Kernel_diagonal_def)
    have dg: "?ds = map diagonal ?Ks"
      using assms by (auto simp: Kernel_diagonal_def)
    have ld: "\<forall>d \<in> set ?ds. length d = ?n"
      unfolding dg using sh by (auto simp: diagonal_def)
    have st: "stack2 ?Ks = Inr (map (\<lambda>a. map (\<lambda>b. map (\<lambda>T. data T ! a ! b) ?Ks) [0..<?n]) [0..<?n], ?n, ?n)"
      using False by (intro stack2_shaped sh) simp
    have st1: "stack1 ?ds = Inr (map (\<lambda>a. map (\<lambda>d. d ! a) ?ds) [0..<?n])"
      using False by (intro stack1_shaped ld) simp
    have entry: "map (\<lambda>ker. K_diag ker ?A ! a) (lmc_kernels k)
        = map (\<lambda>ker. data (K ker ?A (Some ?A)) ! a ! a) (lmc_kernels k)" if "a < ?n" for a
    proof (rule map_cong[OF refl])
      fix ker assume "ker \<in> set (lmc_kernels k)"
      then have kd: "Kernel_diagonal ker" using assms by simp
      then have "K_diag ker ?A = diagonal (K ker ?A (Some ?A))"
        by (simp add: Kernel_diagonal_def)
      moreover have "shape0 (K ker ?A (Some ?A)) = ?n" "shape1 (K ker ?A (Some ?A)) = ?n"
        using kd by (simp_all add: Kernel_diagonal_def)
      ultimately show "K_diag ker ?A ! a = data (K ker ?A (Some ?A)) ! a ! a"
        using that by (simp add: diagonal_def)
    qed
    have L: "LMC_Ksub k i i X1 (Some X1)
        = Inr \<lparr>shape0 = ?n, shape1 = ?n,
               data = tensordot (map (\<lambda>a. map (\<lambda>b. map (\<lambda>T. data T ! a ! b) ?Ks) [0..<?n]) [0..<?n]) ?w\<rparr>"
      using inr st by (simp add: LMC_Ksub_def Let_def bind_err_def)
    have D: "LMC_Ksub_diag k i X1 = Inr (map (\<lambda>row. dot row ?w2) (map (\<lambda>a. map (\<lambda>d. d ! a) ?ds) [0..<?n]))"
      using inr st1 by (simp add: LMC_Ksub_diag_def Let_def bind_err_def)
    have w: "?w = ?w2" by (rule lmc_weight_self)
    have "map (\<lambda>row. dot row ?w2) (map (\<lambda>a. map (\<lambda>d. d ! a) ?ds) [0..<?n])
        = map (\<lambda>a. tensordot (map (\<lambda>a. map (\<lambda>b. map (\<lambda>T. data T ! a ! b) ?Ks) [0..<?n]) [0..<?n]) ?w ! a ! a) [0..<?n]"
      unfolding w by (auto simp: tensordot_def o_def entry intro!: nth_equalityI)
    then show ?thesis
      unfolding L D by (simp add: diagonal_def)
  qed
qed

text \<open>
  Claim C3. For every concrete multi-output kernel, all channels \<open>i\<close> and \<open>j\<close> and all
  point sets \<open>X1\<close> and \<open>X2\<close>, the transpose of \<open>Ksub(i, j, X1, X2)\<close> is
  \<open>Ksub(j, i, X2, X1)\<close>; both calls raise for an index out of range. The two kernels
  that are built from single-output kernels need these to be symmetric themselves.
\<close>

theorem Ksub_symmetric:
  assumes "\<forall>ker \<in> set (subkernels k). Kernel_symmetric ker" and "magnitude_shape k"
  shows "map_sum id transpose_t (Ksub k i j X1 (Some X2)) = Ksub k j i X2 (Some X1)"
proof (cases k)
  case (IMO r)
  then show ?thesis using assms(1) by (simp add: subkernels_def IMO_Ksub_symmetric)
next
  case (MOSM r)
  then show ?thesis by (simp add: MOSM_Ksub_symmetric)
next
  case (uMOSM r)
  then show ?thesis using assms(2) by (simp add: magnitude_shape_def uMOSM_Ksub_symmetric)
next
  case (CSM r)
  then show ?thesis by (simp add: CSM_Ksub_symmetric)
next
  case (LMC r)
  then show ?thesis using assms(1) by (simp add: subkernels_def LMC_Ksub_symmetric)
next
  case (CONV r)
  then show ?thesis by (simp add: CONV_Ksub_symmetric)
next
  case (MOHSM r)
  then show ?thesis by (simp add: MOHSM_Ksub_symmetric)
qed

lemma LinearKernel_symmetric: "Kernel_symmetric LinearKernel"
proof -
  have "(\<lambda>x' x. dot x x') = dot" by (intro ext) (rule dot_commute)
  then show ?thesis
    by (simp add: Kernel_symmetric_def LinearKernel_def transpose_gram)
qed

lemma LinearKernel_diagonal: "Kernel_diagonal LinearKernel"
  by (simp add: Kernel_diagonal_def LinearKernel_def diagonal_gram)

theorem Ksub_symmetric_witness:
  "map_sum id transpose_t
     (Ksub (IMO \<lparr>output_dims = 2, input_dims = 1, active_dims = None,
                 imo_kernels = [LinearKernel, LinearKernel]\<rparr>) 0 0 [[1], [2]] (Some [[3]]))
   = Ksub (IMO \<lparr>output_dims = 2, input_dims = 1, active_dims = None,
                imo_kernels = [LinearKernel, LinearKernel]\<rparr>) 0 0 [[3]] (Some [[1], [2]])
   \<and> Ksub (IMO \<lparr>output_dims = 2, input_dims = 1, active_dims = None,
                imo_kernels = [LinearKernel, LinearKernel]\<rparr>) 0 0 [[3]] (Some [[1], [2]])
     = Inr \<lparr>shape0 = 1, shape1 = 2, data = [[3, 6]]\<rparr>
   \<and> map_sum id transpose_t
     (Ksub (uMOSM \<lparr>output_dims = 2, input_dims = 1, active_dims = None,
                   umosm_magnitude = [[1, 0], [1, 1]], umosm_mean = [[1], [1]],
                   umosm_variance = [[1], [1]], umosm_delay = [[0], [0]],
                   umosm_phase = [1 / 2, 0]\<rparr>) 0 1 [[1], [2]] (Some [[3]]))
   = Ksub (uMOSM \<lparr>output_dims = 2, input_dims = 1, active_dims = None,
                   umosm_magnitude = [[1, 0], [1, 1]], umosm_mean = [[1], [1]],
                   umosm_variance = [[1], [1]], umosm_delay = [[0], [0]],
                   umosm_phase = [1 / 2, 0]\<rparr>) 1 0 [[3]] (Some [[1], [2]])"
proof -
  let ?imo = "IMO \<lparr>output_dims = 2, input_dims = 1, active_dims = None,
                 imo_kernels = [LinearKernel, LinearKernel]\<rparr>"
  let ?um = "uMOSM \<lparr>output_dims = 2, input_dims = 1, active_dims = None,
                   umosm_magnitude = [[1, 0], [1, 1]], umosm_mean = [[1], [1]],
                   umosm_variance = [[1], [1]], umosm_delay = [[0], [0]],
                   umosm_phase = [1 / 2, 0]\<rparr>"
  have h1: "\<forall>ker \<in> set (subkernels ?imo). Kernel_symmetric ker"
    by (simp add: subkernels_def LinearKernel_symmetric)
  have h2: "magnitude_shape ?imo" by (simp add: magnitude_shape_def)
  have h3: "\<forall>ker \<in> set (subkernels ?um). Kernel_symmetric ker"
    by (simp add: subkernels_def)
  have h4: "magnitude_shape ?um" by (simp add: magnitude_shape_def)
  have v: "Ksub ?imo 0 0 [[3]] (Some [[1], [2]]) = Inr \<lparr>shape0 = 1, shape1 = 2, data = [[3, 6]]\<rparr>"
    by (simp add: IMO_Ksub_def active_input_def LinearKernel_def gram_def dot_def)
  show ?thesis
    using Ksub_symmetric[OF h1 h2, of 0 0 "[[1], [2]]" "[[3]]"]
      Ksub_symmetric[OF h3 h4, of 0 1 "[[1], [2]]" "[[3]]"] v
    by blast
qed

lemma param_Ksub_diag_length:
  "MOSM_Ksub_diag k1 i X1 = Inr d \<Longrightarrow> length d = length X1"
  "uMOSM_Ksub_diag k2 i X1 = Inr d \<Longrightarrow> length d = length X1"
  "CSM_Ksub_diag k3 i X1 = Inr d \<Longrightarrow> length d = length X1"
  "CONV_Ksub_diag k4 i X1 = Inr d \<Longrightarrow> length d = length X1"
  "MOHSM_Ksub_diag k5 i X1 = Inr d \<Longrightarrow> length d = length X1"
  by (auto simp: MOSM_Ksub_diag_def uMOSM_Ksub_diag_def CSM_Ksub_diag_def CONV_Ksub_diag_def
      MOHSM_Ksub_diag_def Let_def split: if_splits)

lemma IMO_Ksub_diag_length:
  assumes "\<forall>ker \<in> set (imo_kernels k). Kernel_diagonal ker" "IMO_Ksub_diag k i X1 = Inr d"
  shows "length d = length X1"
proof -
  have i: "i < length (imo_kernels k)"
    using assms(2) by (auto simp: IMO_Ksub_diag_def Let_def split: if_splits)
  then have "Kernel_diagonal (imo_kernels k ! i)" using assms(1) by simp
  then show ?thesis
    using assms(2) i by (auto simp: IMO_Ksub_diag_def Let_def Kernel_diagonal_def diagonal_def)
qed

lemma LMC_Ksub_diag_length:
  assumes "\<forall>ker \<in> set (lmc_kernels k). Kernel_diagonal ker" "LMC_Ksub_diag k i X1 = Inr d"
  shows "length d = length X1"
proof -
  let ?A = "active_input (active_dims k) X1"
  let ?ds = "map (\<lambda>ker. K_diag ker ?A) (lmc_kernels k)"
  have i: "i < output_dims k"
    using assms(2) by (auto simp: LMC_Ksub_diag_def Let_def split: if_splits)
  have ne: "lmc_kernels k \<noteq> []"
    using assms(2) i by (auto simp: LMC_Ksub_diag_def Let_def stack1_def bind_err_def)
  have ld: "\<forall>d \<in> set ?ds. length d = length X1"
    using assms(1) by (auto simp: Kernel_diagonal_def diagonal_def)
  have "stack1 ?ds = Inr (map (\<lambda>a. map (\<lambda>d. d ! a) ?ds) [0..<length X1])"
    using ne by (intro stack1_shaped ld) simp
  then show ?thesis
    using assms(2) i by (auto simp: LMC_Ksub_diag_def Let_def bind_err_def)
qed

text \<open>
  Claim C6. For every concrete multi-output kernel, every channel \<open>i\<close> and every point
  set \<open>X1\<close>, \<open>Ksub_diag(i, X1)\<close> is the diagonal of \<open>Ksub(i, i, X1, X1)\<close>, a vector of
  length \<open>|X1|\<close>. The two kernels that are built from single-output kernels need the
  \<open>K_diag\<close> of these to be the diagonal of their \<open>K\<close>.
\<close>

theorem Ksub_diag_consistent:
  assumes "\<forall>ker \<in> set (subkernels k). Kernel_diagonal ker"
  shows "Ksub_diag k i X1 = map_sum id diagonal (Ksub k i i X1 (Some X1))
       \<and> (\<forall>d. Ksub_diag k i X1 = Inr d \<longrightarrow> length d = length X1)"
proof (cases k)
  case (IMO r)
  then show ?thesis
    using assms IMO_Ksub_diag_length[of r i X1]
    by (simp add: subkernels_def IMO_Ksub_diag_consistent)
next
  case (MOSM r)
  then show ?thesis
    using param_Ksub_diag_length(1)[of r i X1] by (simp add: MOSM_Ksub_diag_consistent)
next
  case (uMOSM r)
  then show ?thesis
    using param_Ksub_diag_length(2)[of r i X1] by (simp add: uMOSM_Ksub_diag_consistent)
next
  case (CSM r)
  then show ?thesis
    using param_Ksub_diag_length(3)[of r i X1] by (simp add: CSM_Ksub_diag_consistent)
next
  case (LMC r)
  then show ?thesis
    using assms LMC_Ksub_diag_length[of r i X1]
    by (simp add: subkernels_def LMC_Ksub_diag_consistent)
next
  case (CONV r)
  then show ?thesis
    using param_Ksub_diag_length(4)[of r i X1] by (simp add: CONV_Ksub_diag_consistent)
next
  case (MOHSM r)
  then show ?thesis
    using param_Ksub_diag_length(5)[of r i X1] by (simp add: MOHSM_Ksub_diag_consistent)
qed

theorem Ksub_diag_consistent_witness:
  "Ksub_diag (LMC \<lparr>output_dims = 2, input_dims = 1, active_dims = None,
                    lmc_kernels = [LinearKernel], lmc_weight = [[[2]], [[3]]]\<rparr>) 1 [[1], [2]]
   = map_sum id diagonal
       (Ksub (LMC \<lparr>output_dims = 2, input_dims = 1, active_dims = None,
                    lmc_kernels = [LinearKernel], lmc_weight = [[[2]], [[3]]]\<rparr>) 1 1 [[1], [2]]
          (Some [[1], [2]]))
   \<and> Ksub_diag (LMC \<lparr>output_dims = 2, input_dims = 1, active_dims = None,
                    lmc_kernels = [LinearKernel], lmc_weight = [[[2]], [[3]]]\<rparr>) 1 [[1], [2]]
   = Inr [9, 36]"
proof -
  let ?k = "LMC \<lparr>output_dims = 2, input_dims = 1, active_dims = None,
                    lmc_kernels = [LinearKernel], lmc_weight = [[[2]], [[3]]]\<rparr>"
  have h: "\<forall>ker \<in> set (subkernels ?k). Kernel_diagonal ker"
    by (simp add: subkernels_def LinearKernel_diagonal)
  have v: "Ksub_diag ?k 1 [[1], [2]] = Inr [9, 36]"
    by (simp add: LMC_Ksub_diag_def active_input_def LinearKernel_def stack1_def bind_err_def
        dot_def upt_rec)
  show ?thesis
    using Ksub_diag_consistent[OF h, of 1 "[[1], [2]]"] v by blast
qed

lemma tril_example:
  "mm_T (tril [[1, 0], [1, 1]]) (tril [[1, 0], [1, 1]]) ! 0 ! 1 = 1"
  "mm_T (tril [[1, 0], [1, 1]]) (tril [[1, 0], [1, 1]]) ! 0 ! Suc 0 = 1"
  by (simp_all add: mm_T_def tril_def dot_def upt_rec)

lemma cross_params_example:
  "cross_variance [1] [1] = [1]" "cross_mean [1] [1] [1] [1] = [1]"
  "cross_attenuation [1] [1] [1] [1] = 1"
  by (simp_all add: cross_variance_def cross_mean_def cross_attenuation_def cross_inv_def dot_def)

text \<open>
  Claim C4. uMOSM is claimed to combine \<open>(L L\<^sup>T)[i, j]\<close> with exactly the phase algebra of
  MOSM. MOSM computes \<open>cos(2 pi (tau . mean + phase))\<close>, uMOSM computes
  \<open>cos(2 pi (tau . mean) + phase)\<close>. With two channels, one input dimension, mean and
  variance \<open>1\<close>, no delay, phases \<open>1/2\<close> and \<open>0\<close>, the MOSM magnitudes \<open>1, 1\<close> and the
  uMOSM magnitude \<open>[[1, 0], [1, 1]]\<close>, whose \<open>(L L\<^sup>T)[0, 1]\<close> is the product \<open>1\<close> of the
  MOSM magnitudes, the blocks of channels \<open>0\<close> and \<open>1\<close> at the point \<open>0\<close> are
  \<open>- sqrt (2 pi)\<close> for MOSM and \<open>sqrt (2 pi) * cos (1/2)\<close> for uMOSM.
\<close>

theorem uMOSM_phase_outside_two_pi:
  "mm_T (tril [[1, 0], [1, 1]]) (tril [[1, 0], [1, 1]]) ! 0 ! 1 = [1, 1 :: real] ! 0 * [1, 1] ! 1
   \<and> MOSM_Ksub \<lparr>output_dims = 2, input_dims = 1, active_dims = None,
        mosm_magnitude = [1, 1], mosm_mean = [[1], [1]], mosm_variance = [[1], [1]],
        mosm_delay = [[0], [0]], mosm_phase = [1 / 2, 0]\<rparr> 0 1 [[0]] (Some [[0]])
     = Inr \<lparr>shape0 = 1, shape1 = 1, data = [[- sqrt (2 * pi)]]\<rparr>
   \<and> uMOSM_Ksub \<lparr>output_dims = 2, input_dims = 1, active_dims = None,
        umosm_magnitude = [[1, 0], [1, 1]], umosm_mean = [[1], [1]], umosm_variance = [[1], [1]],
        umosm_delay = [[0], [0]], umosm_phase = [1 / 2, 0]\<rparr> 0 1 [[0]] (Some [[0]])
     = Inr \<lparr>shape0 = 1, shape1 = 1, data = [[sqrt (2 * pi) * cos (1 / 2)]]\<rparr>
   \<and> - sqrt (2 * pi) < 0 \<and> 0 < sqrt (2 * pi) * cos (1 / 2)"
proof (intro conjI)
  show "mm_T (tril [[1, 0], [1, 1]]) (tril [[1, 0], [1, 1]]) ! 0 ! 1 = [1, 1 :: real] ! 0 * [1, 1] ! 1"
    by (simp add: tril_example)
  have tp: "(2 * pi) powr (1 / 2) = sqrt (2 * pi)"
    by (simp add: powr_half_sqrt)
  show "MOSM_Ksub \<lparr>output_dims = 2, input_dims = 1, active_dims = None,
        mosm_magnitude = [1, 1], mosm_mean = [[1], [1]], mosm_variance = [[1], [1]],
        mosm_delay = [[0], [0]], mosm_phase = [1 / 2, 0]\<rparr> 0 1 [[0]] (Some [[0]])
     = Inr \<lparr>shape0 = 1, shape1 = 1, data = [[- sqrt (2 * pi)]]\<rparr>"
    by (simp add: MOSM_Ksub_cross block_def gram_def active_input_def mosm_cross_def
        cross_params_example mosm_twopi_def tp dot_def)
  show "uMOSM_Ksub \<lparr>output_dims = 2, input_dims = 1, active_dims = None,
        umosm_magnitude = [[1, 0], [1, 1]], umosm_mean = [[1], [1]], umosm_variance = [[1], [1]],
        umosm_delay = [[0], [0]], umosm_phase = [1 / 2, 0]\<rparr> 0 1 [[0]] (Some [[0]])
     = Inr \<lparr>shape0 = 1, shape1 = 1, data = [[sqrt (2 * pi) * cos (1 / 2)]]\<rparr>"
    by (simp add: uMOSM_Ksub_cross block_def gram_def active_input_def umosm_cross_def
        cross_params_example mosm_twopi_def tp dot_def tril_example)
  show "- sqrt (2 * pi) < 0" by simp
  have "(1 :: real) / 2 < pi / 2" using pi_ge_two by simp
  then have "0 < cos (1 / 2 :: real)" by (intro cos_gt_zero) simp_all
  then show "0 < sqrt (2 * pi) * cos (1 / 2)" by simp
qed

lemma mohsm_same_factor:
  "mohsm_same k i x x' =
     mosm_same (MOHSM_as_MOSM k) i x x'
     * ((2.0 * pi) powr (real (input_dims k) / 2.0) * \<bar>mohsm_lengthscale k ! i\<bar> ^ input_dims k
        * envelope ((mohsm_lengthscale k ! i)\<^sup>2) (input_dims k) (mohsm_center k)
            (map2 (\<lambda>a b. (a + b) / 2) x x'))"
proof -
  have "(2.0 * pi) powr real (input_dims k)
      = (2.0 * pi) powr (real (input_dims k) / 2.0) * (2.0 * pi) powr (real (input_dims k) / 2.0)"
    by (simp add: powr_add[symmetric])
  then show ?thesis
    by (simp add: mohsm_same_def mosm_same_def MOHSM_as_MOSM_def mohsm_twopi_def mosm_twopi_def)
qed

text \<open>
  Claim C5, as the code has it. For every channel \<open>i\<close> and all point sets, the block
  \<open>MultiOutputHarmonizableSpectralKernel.Ksub(i, i, X1, X2)\<close> is the MOSM same-channel
  block with the same magnitude, mean and variance, every entry multiplied by
  \<open>(2 pi)^(D/2) * |lengthscale[i]|^D\<close> and by the envelope
  \<open>exp(-(avg - center)\<^sup>2 * lengthscale[i]\<^sup>2 / 2)\<close> in the average position: the
  normalisation is \<open>(2 pi)^D\<close> and the envelope uses the square of the lengthscale.
\<close>

theorem MOHSM_same_channel:
  "MOHSM_Ksub k i i X1 X2 =
     map_sum id
       (scale_entries
          (\<lambda>x x'. (2.0 * pi) powr (real (input_dims k) / 2.0)
                   * \<bar>mohsm_lengthscale k ! i\<bar> ^ input_dims k
                   * envelope ((mohsm_lengthscale k ! i)\<^sup>2) (input_dims k) (mohsm_center k)
                       (map2 (\<lambda>a b. (a + b) / 2) x x'))
          (active_input (active_dims k) X1) (map_option (active_input (active_dims k)) X2))
       (MOSM_Ksub (MOHSM_as_MOSM k) i i X1 X2)"
proof (cases "i < output_dims k")
  case False
  then show ?thesis by (simp add: MOHSM_Ksub_def MOSM_Ksub_def MOHSM_as_MOSM_def)
next
  case True
  then have i': "i < output_dims (MOHSM_as_MOSM k)" by (simp add: MOHSM_as_MOSM_def)
  have ad: "active_dims (MOHSM_as_MOSM k) = active_dims k" by (simp add: MOHSM_as_MOSM_def)
  show ?thesis
    unfolding MOHSM_Ksub_same[OF True] MOSM_Ksub_same[OF i'] ad
    by (simp add: scale_entries_def block_def ew2_gram mohsm_same_factor[abs_def])
qed

theorem MOHSM_same_channel_witness:
  "MOHSM_Ksub \<lparr>output_dims = 1, input_dims = 1, active_dims = None, mohsm_magnitude = [1],
       mohsm_mean = [[1]], mohsm_variance = [[1]], mohsm_lengthscale = [2],
       mohsm_delay = [[0]], mohsm_phase = [0], mohsm_center = [0]\<rparr> 0 0 [[1]] (Some [[3]])
   = map_sum id
       (scale_entries
          (\<lambda>x x'. (2.0 * pi) powr (real (1 :: nat) / 2.0) * \<bar>2\<bar> ^ 1
                   * envelope (2\<^sup>2) 1 [0] (map2 (\<lambda>a b. (a + b) / 2) x x'))
          [[1]] (Some [[3]]))
       (MOSM_Ksub \<lparr>output_dims = 1, input_dims = 1, active_dims = None, mosm_magnitude = [1],
          mosm_mean = [[1]], mosm_variance = [[1]], mosm_delay = [[0]], mosm_phase = [0]\<rparr>
          0 0 [[1]] (Some [[3]]))"
  using MOHSM_same_channel [of "\<lparr>output_dims = 1, input_dims = 1, active_dims = None,
       mohsm_magnitude = [1], mohsm_mean = [[1]], mohsm_variance = [[1]], mohsm_lengthscale = [2],
       mohsm_delay = [[0]], mohsm_phase = [0], mohsm_center = [0]\<rparr>" 0 "[[1]]" "Some [[3]]"]
  by (simp add: MOHSM_as_MOSM_def active_input_def)

text \<open>
  The block is not the MOSM block times the envelope alone: with one input dimension,
  all parameters \<open>1\<close>, centre \<open>0\<close> and the point \<open>0\<close> the code gives \<open>2 pi\<close>, the
  specification's formula \<open>sqrt (2 pi)\<close>.
\<close>

theorem MOHSM_same_channel_not_MOSM_times_envelope:
  "MOHSM_Ksub \<lparr>output_dims = 1, input_dims = 1, active_dims = None, mohsm_magnitude = [1],
       mohsm_mean = [[1]], mohsm_variance = [[1]], mohsm_lengthscale = [1],
       mohsm_delay = [[0]], mohsm_phase = [0], mohsm_center = [0]\<rparr> 0 0 [[0]] (Some [[0]])
     = Inr \<lparr>shape0 = 1, shape1 = 1, data = [[2 * pi]]\<rparr>
   \<and> spec_MOHSM_same \<lparr>output_dims = 1, input_dims = 1, active_dims = None, mohsm_magnitude = [1],
       mohsm_mean = [[1]], mohsm_variance = [[1]], mohsm_lengthscale = [1],
       mohsm_delay = [[0]], mohsm_phase = [0], mohsm_center = [0]\<rparr> 0 [[0]] (Some [[0]])
     = Inr \<lparr>shape0 = 1, shape1 = 1, data = [[sqrt (2 * pi)]]\<rparr>
   \<and> 2 * pi \<noteq> sqrt (2 * pi)"
proof (intro conjI)
  have tp: "(2 * pi) powr (1 / 2) = sqrt (2 * pi)"
    by (simp add: powr_half_sqrt)
  show "MOHSM_Ksub \<lparr>output_dims = 1, input_dims = 1, active_dims = None, mohsm_magnitude = [1],
       mohsm_mean = [[1]], mohsm_variance = [[1]], mohsm_lengthscale = [1],
       mohsm_delay = [[0]], mohsm_phase = [0], mohsm_center = [0]\<rparr> 0 0 [[0]] (Some [[0]])
     = Inr \<lparr>shape0 = 1, shape1 = 1, data = [[2 * pi]]\<rparr>"
    by (simp add: MOHSM_Ksub_same block_def gram_def active_input_def mohsm_same_def
        mohsm_twopi_def envelope_def dot_def)
  show "spec_MOHSM_same \<lparr>output_dims = 1, input_dims = 1, active_dims = None, mohsm_magnitude = [1],
       mohsm_mean = [[1]], mohsm_variance = [[1]], mohsm_lengthscale = [1],
       mohsm_delay = [[0]], mohsm_phase = [0], mohsm_center = [0]\<rparr> 0 [[0]] (Some [[0]])
     = Inr \<lparr>shape0 = 1, shape1 = 1, data = [[sqrt (2 * pi)]]\<rparr>"
    by (simp add: spec_MOHSM_same_def MOHSM_as_MOSM_def MOSM_Ksub_same block_def gram_def
        active_input_def mosm_same_def mosm_twopi_def envelope_def dot_def scale_entries_def
        ew2_def tp)
  have "1\<^sup>2 < 2 * pi" using pi_ge_two by simp
  then have "1 < sqrt (2 * pi)" by (rule real_less_rsqrt)
  then have "sqrt (2 * pi) * 1 < sqrt (2 * pi) * sqrt (2 * pi)"
    by (intro mult_strict_left_mono) linarith+
  moreover have "sqrt (2 * pi) * sqrt (2 * pi) = 2 * pi" by simp
  ultimately have "sqrt (2 * pi) < 2 * pi" by (simp only: mult_1_right)
  then show "2 * pi \<noteq> sqrt (2 * pi)" by linarith
qed

end
